theory Spec2Isabelle
  imports Complex_Main "HOL-Library.Word"
begin

unbundle bit_operations_syntax

section \<open>Python values\<close>

text \<open>
  Python floats are modelled as exact reals: the rounding of IEEE doubles is abstracted
  away, so every formula below is the one the source writes, read over \<open>real\<close>.
  Python's unbounded integers are \<open>int\<close>, strings are \<open>string\<close>, \<open>bytes\<close> are lists of
  8-bit words.  A dictionary is an association list in insertion order with distinct
  keys: storing under an existing key replaces the value in place, storing under a new
  key appends.
\<close>

type_synonym bytes = "8 word list"

type_synonym ('k, 'v) dict = "('k \<times> 'v) list"

datatype error =
    ValueError string
  | RuntimeError string
  | KeyError string
  | IndexError string
  | ZeroDivisionError string
  | NotImplementedError string
  | ExternalError string

text \<open>
  A value of \<open>error\<close> is an exception derived from \<open>Exception\<close>, the kind the source's
  \<open>except Exception\<close> handlers catch; \<open>ExternalError\<close> stands for whatever a library or a
  collaborator raises.  \<open>str(e)\<close> is the message the exception carries.
\<close>

fun str_of_error :: "error \<Rightarrow> string" where
  "str_of_error (ValueError m) = m"
| "str_of_error (RuntimeError m) = m"
| "str_of_error (KeyError m) = m"
| "str_of_error (IndexError m) = m"
| "str_of_error (ZeroDivisionError m) = m"
| "str_of_error (NotImplementedError m) = m"
| "str_of_error (ExternalError m) = m"

fun dict_set :: "('k, 'v) dict \<Rightarrow> 'k \<Rightarrow> 'v \<Rightarrow> ('k, 'v) dict" where
  "dict_set [] k v = [(k, v)]"
| "dict_set ((k', v') # d) k v =
     (if k' = k then (k, v) # d else (k', v') # dict_set d k v)"

definition dict_get :: "('k, 'v) dict \<Rightarrow> 'k \<Rightarrow> 'v option" where
  "dict_get d k = map_of d k"

text \<open>\<open>d.get(k, default)\<close>\<close>

definition dict_get_default :: "('k, 'v) dict \<Rightarrow> 'k \<Rightarrow> 'v \<Rightarrow> 'v" where
  "dict_get_default d k dflt = (case map_of d k of None \<Rightarrow> dflt | Some v \<Rightarrow> v)"

definition dict_keys :: "('k, 'v) dict \<Rightarrow> 'k list" where
  "dict_keys d = map fst d"

definition dict_values :: "('k, 'v) dict \<Rightarrow> 'v list" where
  "dict_values d = map snd d"

text \<open>\<open>max(iterable, default=d)\<close> over floats.\<close>

fun max_default :: "real list \<Rightarrow> real \<Rightarrow> real" where
  "max_default [] d = d"
| "max_default (x # xs) d = fold max xs x"

section \<open>The classification service (\<open>ai-classifier/service.py\<close>)\<close>

datatype ContentCategory =
    SAFE
  | SUGGESTIVE
  | EXPLICIT_SEXUAL
  | VIOLENCE_MILD
  | VIOLENCE_GRAPHIC
  | DRUGS
  | CSAM_SUSPECT
  | NSFL_SUSPECT

record ClassificationScore =
  category :: string
  score :: real
  model_name :: string
  model_version :: string

record AgeEstimation =
  estimated_age :: real
  age_range_low :: real
  age_range_high :: real
  confidence :: real
  is_minor_likely :: bool
  age_model_name :: string

text \<open>The two thresholds of \<open>ClassifierSettings\<close> that the decision tree reads.\<close>

record ClassifierSettings =
  confidence_threshold :: real
  csam_alert_threshold :: real

text \<open>
  \<open>_compute_csam_risk\<close>.  \<open>age_estimation and age_estimation.is_minor_likely\<close>: a dataclass
  instance is always truthy, so the test fails only for \<open>None\<close> or a false flag.
\<close>

definition risky_scenes :: "string list" where
  "risky_scenes = [''scene_indoor_bedroom'', ''scene_indoor_bathroom'', ''scene_indoor_school'']"

definition compute_csam_risk ::
  "ClassificationScore list \<Rightarrow> AgeEstimation option \<Rightarrow> ClassificationScore list \<Rightarrow> real" where
  "compute_csam_risk nsfw_scores age_estimation scene_scores =
     (let explicit_score =
            max_default (map score (filter (\<lambda>s. category s = ''explicit_sexual'') nsfw_scores)) 0;
          suggestive_score =
            max_default (map score (filter (\<lambda>s. category s = ''suggestive'') nsfw_scores)) 0;
          minor_score =
            (case age_estimation of
               None \<Rightarrow> 0
             | Some a \<Rightarrow>
                 if is_minor_likely a
                 then (let age_factor = max 0 ((18 - estimated_age a) / 18)
                       in confidence a * age_factor)
                 else 0);
          scene_risk =
            max_default (map score (filter (\<lambda>s. category s \<in> set risky_scenes) scene_scores)) 0;
          csam_score =
            0.35 * explicit_score
            + 0.40 * minor_score
            + 0.15 * scene_risk
            + 0.10 * (suggestive_score * minor_score)
      in min 1 (max 0 csam_score))"

text \<open>
  \<open>_determine_classification\<close>.  The dictionary comprehension
  \<open>{s.category: s.score for s in nsfw_scores}\<close> stores the scores in list order, so a
  category listed twice keeps its last score.
\<close>

definition score_map_of :: "ClassificationScore list \<Rightarrow> (string, real) dict" where
  "score_map_of nsfw_scores = fold (\<lambda>s d. dict_set d (category s) (score s)) nsfw_scores []"

definition determine_classification ::
  "ClassifierSettings \<Rightarrow> ClassificationScore list \<Rightarrow> real \<Rightarrow> ContentCategory" where
  "determine_classification settings nsfw_scores csam_score =
     (if csam_score \<ge> csam_alert_threshold settings then CSAM_SUSPECT
      else
        (let score_map = score_map_of nsfw_scores in
         if dict_get_default score_map ''explicit_sexual'' 0 > confidence_threshold settings
           then EXPLICIT_SEXUAL
         else if dict_get_default score_map ''violence_graphic'' 0 > confidence_threshold settings
           then VIOLENCE_GRAPHIC
         else if dict_get_default score_map ''violence_mild'' 0 > confidence_threshold settings
           then VIOLENCE_MILD
         else if dict_get_default score_map ''suggestive'' 0 > confidence_threshold settings
           then SUGGESTIVE
         else if dict_get_default score_map ''drugs'' 0 > confidence_threshold settings
           then DRUGS
         else SAFE))"

text \<open>\<open>_should_route_to_review\<close>: three early returns, then \<open>False\<close>.\<close>

definition should_route_to_review ::
  "ContentCategory \<Rightarrow> real \<Rightarrow> real \<Rightarrow> AgeEstimation option \<Rightarrow> bool" where
  "should_route_to_review classification csam_score nsfw_score age_est =
     (if classification = CSAM_SUSPECT then True
      else if csam_score > 0.5 then True
      else if (case age_est of None \<Rightarrow> False | Some a \<Rightarrow> is_minor_likely a \<and> nsfw_score > 0.3)
        then True
      else False)"

subsection \<open>Reference notions for the classification properties\<close>

text \<open>
  The notions the properties are stated with.  \<open>category_score\<close> is the score a list of
  classification scores gives a category: that of its last entry for the category, and 0
  when it has none (for a list with one entry per category, the score of that entry, see
  \<open>category_score_distinct\<close>).  \<open>category_peak\<close> is the maximum score among the entries
  whose category lies in a given set, and 0 when there is none.  \<open>minor_score\<close> is the
  minor likelihood of the composite risk score.
\<close>

definition category_score :: "ClassificationScore list \<Rightarrow> string \<Rightarrow> real" where
  "category_score xs c =
     (case filter (\<lambda>s. category s = c) xs of [] \<Rightarrow> 0 | y # ys \<Rightarrow> score (last (y # ys)))"

definition category_peak :: "ClassificationScore list \<Rightarrow> string set \<Rightarrow> real" where
  "category_peak xs cats =
     (let S = score ` {s \<in> set xs. category s \<in> cats} in if S = {} then 0 else Max S)"

definition minor_score :: "AgeEstimation option \<Rightarrow> real" where
  "minor_score age =
     (case age of
        None \<Rightarrow> 0
      | Some a \<Rightarrow> if is_minor_likely a then confidence a * max 0 ((18 - estimated_age a) / 18) else 0)"

section \<open>The model registry (\<open>ai-classifier/model_registry.py\<close>)\<close>

text \<open>
  A tensor is the NCHW array a model reads.  An inference session is what the registry
  sees of the ONNX runtime: reading the input name and running the session either raises
  or returns the list of the model's outputs, each a batch of vectors.
\<close>

type_synonym tensor = "real list list list list"

type_synonym session = "tensor \<Rightarrow> error + real list list list"

record ModelDescriptor =
  model_id :: string
  name :: string
  version :: string
  model_type :: string
  task :: string
  input_size :: "int \<times> int"
  preprocessing :: string
  categories :: "string list"
  weight :: real
  enabled :: bool
  model_path :: string
  source_url :: string
  license :: string
  loaded :: bool
  total_inferences :: int
  avg_latency_ms :: real
  last_inference :: "real option"

definition BUILTIN_MODELS :: "ModelDescriptor list" where
  "BUILTIN_MODELS =
    [\<lparr>model_id = ''nsfw_detector_v3'', name = ''Internal NSFW Detector'', version = ''v3'',
       model_type = ''onnx'', task = ''nsfw_detection'', input_size = (224, 224),
       preprocessing = ''imagenet'',
       categories = [''explicit_sexual'', ''suggestive'', ''violence_graphic'',
                     ''violence_mild'', ''drugs'', ''safe''],
       weight = 0.30, enabled = True, model_path = ''/models/nsfw_detector_v3.onnx'',
       source_url = '''', license = ''Proprietary'',
       loaded = False, total_inferences = 0, avg_latency_ms = 0, last_inference = None\<rparr>,
     \<lparr>model_id = ''yahoo_open_nsfw'', name = ''Yahoo Open NSFW'', version = ''1.0'',
       model_type = ''onnx'', task = ''nsfw_detection'', input_size = (224, 224),
       preprocessing = ''caffe'',
       categories = [''nsfw'', ''sfw''],
       weight = 0.30, enabled = True, model_path = ''/models/yahoo_open_nsfw.onnx'',
       source_url = ''https://github.com/yahoo/open_nsfw'', license = ''BSD-2-Clause'',
       loaded = False, total_inferences = 0, avg_latency_ms = 0, last_inference = None\<rparr>,
     \<lparr>model_id = ''nudenet_v3'', name = ''NudeNet v3'', version = ''v3'',
       model_type = ''onnx'', task = ''nsfw_detection'', input_size = (320, 320),
       preprocessing = ''raw_0_1'',
       categories = [''safe'', ''female_genitalia_covered'', ''female_genitalia_exposed'',
                     ''male_genitalia_exposed'', ''buttocks_exposed'',
                     ''female_breast_exposed'', ''female_breast_covered'',
                     ''anus_exposed'', ''belly_exposed'', ''feet_exposed'',
                     ''armpits_exposed'', ''face_male'', ''face_female''],
       weight = 0.25, enabled = True, model_path = ''/models/nudenet_v3.onnx'',
       source_url = ''https://github.com/notAI-tech/NudeNet'', license = ''Apache-2.0'',
       loaded = False, total_inferences = 0, avg_latency_ms = 0, last_inference = None\<rparr>,
     \<lparr>model_id = ''clip_safety'', name = ''CLIP Safety Classifier'', version = ''1.0'',
       model_type = ''onnx'', task = ''nsfw_detection'', input_size = (224, 224),
       preprocessing = ''clip'',
       categories = [''unsafe'', ''safe''],
       weight = 0.15, enabled = False, model_path = ''/models/clip_safety.onnx'',
       source_url = ''https://github.com/LAION-AI/CLIP-based-NSFW-Detector'', license = ''MIT'',
       loaded = False, total_inferences = 0, avg_latency_ms = 0, last_inference = None\<rparr>,
     \<lparr>model_id = ''nsfl_detector_v1'', name = ''NSFL Detector'', version = ''v1'',
       model_type = ''onnx'', task = ''nsfl_detection'', input_size = (224, 224),
       preprocessing = ''imagenet'',
       categories = [''gore'', ''violence_graphic'', ''shock'', ''disturbing'', ''safe''],
       weight = 1.0, enabled = True, model_path = ''/models/nsfl_detector_v1.onnx'',
       source_url = '''', license = ''Proprietary'',
       loaded = False, total_inferences = 0, avg_latency_ms = 0, last_inference = None\<rparr>,
     \<lparr>model_id = ''age_estimator_v2'', name = ''Age Estimator'', version = ''v2'',
       model_type = ''onnx'', task = ''age_estimation'', input_size = (224, 224),
       preprocessing = ''imagenet'',
       categories = [],
       weight = 1.0, enabled = True, model_path = ''/models/age_estimator_v2.onnx'',
       source_url = '''', license = ''Proprietary'',
       loaded = False, total_inferences = 0, avg_latency_ms = 0, last_inference = None\<rparr>,
     \<lparr>model_id = ''scene_classifier_v1'', name = ''Scene Classifier'', version = ''v1'',
       model_type = ''onnx'', task = ''scene_classification'', input_size = (299, 299),
       preprocessing = ''imagenet'',
       categories = [''indoor_bedroom'', ''indoor_bathroom'', ''indoor_school'',
                     ''indoor_office'', ''outdoor_playground'', ''outdoor_street'',
                     ''indoor_generic'', ''outdoor_generic''],
       weight = 1.0, enabled = True, model_path = ''/models/scene_classifier_v1.onnx'',
       source_url = '''', license = ''Proprietary'',
       loaded = False, total_inferences = 0, avg_latency_ms = 0, last_inference = None\<rparr>]"

text \<open>The registry: \<open>_models\<close> and \<open>_sessions\<close>, both keyed by model id.\<close>

record ModelRegistry =
  models :: "(string, ModelDescriptor) dict"
  sessions :: "(string, session) dict"

definition empty_registry :: ModelRegistry where
  "empty_registry = \<lparr>models = [], sessions = []\<rparr>"

definition register :: "ModelRegistry \<Rightarrow> ModelDescriptor \<Rightarrow> ModelRegistry" where
  "register reg descriptor =
     reg\<lparr>models := dict_set (models reg) (model_id descriptor) descriptor\<rparr>"

definition register_builtins :: "ModelRegistry \<Rightarrow> ModelRegistry" where
  "register_builtins reg = fold (\<lambda>descriptor r. register r descriptor) BUILTIN_MODELS reg"

text \<open>\<open>del d[k]\<close> for a key that is present.\<close>

definition dict_del :: "('k, 'v) dict \<Rightarrow> 'k \<Rightarrow> ('k, 'v) dict" where
  "dict_del d k = filter (\<lambda>kv. fst kv \<noteq> k) d"

text \<open>
  \<open>load_model\<close>.  Creating the ONNX session is the runtime's work: \<open>new_session\<close> takes the
  model path and the provider list and raises or returns the session.  A model type other
  than \<open>onnx\<close> is logged and nothing is loaded.  The result pairs what the call raises
  or returns with the registry it leaves behind.
\<close>

definition load_model ::
  "(string \<Rightarrow> string list \<Rightarrow> error + session) \<Rightarrow> ModelRegistry \<Rightarrow> string \<Rightarrow> string
     \<Rightarrow> (error + unit) \<times> ModelRegistry" where
  "load_model new_session reg mid device =
     (case dict_get (models reg) mid of
        None \<Rightarrow> (Inl (ValueError (''Unknown model: '' @ mid)), reg)
      | Some descriptor \<Rightarrow>
          if model_type descriptor = ''onnx'' then
            (let providers =
                   (if device = ''cuda'' then [''CUDAExecutionProvider'', ''CPUExecutionProvider'']
                    else [''CPUExecutionProvider''])
             in case new_session (model_path descriptor) providers of
                  Inl e \<Rightarrow> (Inl e, reg)
                | Inr s \<Rightarrow>
                    (Inr (),
                     reg\<lparr>sessions := dict_set (sessions reg) mid s,
                         models := dict_set (models reg) mid (descriptor\<lparr>loaded := True\<rparr>)\<rparr>))
          else (Inr (), reg))"

definition unload_model :: "ModelRegistry \<Rightarrow> string \<Rightarrow> ModelRegistry" where
  "unload_model reg mid =
     (let reg1 = (case dict_get (sessions reg) mid of
                    None \<Rightarrow> reg
                  | Some s \<Rightarrow> reg\<lparr>sessions := dict_del (sessions reg) mid\<rparr>)
      in case dict_get (models reg1) mid of
           None \<Rightarrow> reg1
         | Some descriptor \<Rightarrow>
             reg1\<lparr>models := dict_set (models reg1) mid (descriptor\<lparr>loaded := False\<rparr>)\<rparr>)"

text \<open>
  \<open>predict\<close>.  The clock is an input: \<open>elapsed_ms\<close> is the measured duration of the
  inference and \<open>now\<close> the time stamp stored in \<open>last_inference\<close>.  The statistics are
  updated in three assignments; the division of the second one raises
  \<open>ZeroDivisionError\<close> when the incremented count is zero, after the count has been
  stored.  The result pairs what the call raises or returns with the registry it leaves
  behind.
\<close>

definition predict ::
  "ModelRegistry \<Rightarrow> string \<Rightarrow> tensor \<Rightarrow> real \<Rightarrow> real \<Rightarrow> (error + real list) \<times> ModelRegistry" where
  "predict reg mid input_tensor elapsed_ms now =
     (case dict_get (sessions reg) mid of
        None \<Rightarrow> (Inl (RuntimeError (''Model '' @ mid @ '' is not loaded'')), reg)
      | Some session \<Rightarrow>
          (case dict_get (models reg) mid of
             None \<Rightarrow> (Inl (KeyError mid), reg)
           | Some descriptor \<Rightarrow>
               if model_type descriptor = ''onnx'' then
                 (case session input_tensor of
                    Inl e \<Rightarrow> (Inl e, reg)
                  | Inr output \<Rightarrow>
                      (case output of
                         [] \<Rightarrow> (Inl (IndexError ''list index out of range''), reg)
                       | first_output # _ \<Rightarrow>
                           (case first_output of
                              [] \<Rightarrow> (Inl (IndexError ''index 0 is out of bounds''), reg)
                            | result # _ \<Rightarrow>
                                (let d1 = descriptor\<lparr>total_inferences := total_inferences descriptor + 1\<rparr>
                                 in if total_inferences d1 = 0
                                    then (Inl (ZeroDivisionError ''float division by zero''),
                                          reg\<lparr>models := dict_set (models reg) mid d1\<rparr>)
                                    else
                                      (let d2 = d1\<lparr>avg_latency_ms :=
                                                    (avg_latency_ms d1 * of_int (total_inferences d1 - 1)
                                                       + elapsed_ms)
                                                    / of_int (total_inferences d1)\<rparr>;
                                           d3 = d2\<lparr>last_inference := Some now\<rparr>
                                       in (Inr result, reg\<lparr>models := dict_set (models reg) mid d3\<rparr>))))))
               else (Inl (RuntimeError (''Unsupported model type: '' @ model_type descriptor)), reg)))"

definition get_models_for_task :: "ModelRegistry \<Rightarrow> string \<Rightarrow> ModelDescriptor list" where
  "get_models_for_task reg t = filter (\<lambda>m. task m = t \<and> enabled m) (dict_values (models reg))"

text \<open>\<open>list_models\<close>: \<open>if task\<close> is false for \<open>None\<close> and for the empty string.\<close>

definition list_models :: "ModelRegistry \<Rightarrow> string option \<Rightarrow> bool \<Rightarrow> ModelDescriptor list" where
  "list_models reg t enabled_only =
     (let ms = dict_values (models reg);
          ms1 = (case t of
                   None \<Rightarrow> ms
                 | Some tk \<Rightarrow> if tk = [] then ms else filter (\<lambda>m. task m = tk) ms)
      in if enabled_only then filter enabled ms1 else ms1)"

text \<open>
  \<open>health_check\<close> returns a dictionary of strings, booleans, integers and floats.
  \<open>round(x, 1)\<close> is read over the reals: the nearest multiple of one tenth, a tie going to
  the even one.
\<close>

datatype py_value = PyStr string | PyBool bool | PyInt int | PyFloat real

definition round_half_even :: "real \<Rightarrow> int" where
  "round_half_even x =
     (let f = \<lfloor>x\<rfloor>; r = x - of_int f
      in if r < 1 / 2 then f else if r > 1 / 2 then f + 1 else if even f then f else f + 1)"

definition py_round1 :: "real \<Rightarrow> real" where
  "py_round1 x = of_int (round_half_even (x * 10)) / 10"

definition health_check :: "ModelRegistry \<Rightarrow> string \<Rightarrow> (string, py_value) dict" where
  "health_check reg mid =
     (case dict_get (models reg) mid of
        None \<Rightarrow> [(''model_id'', PyStr mid), (''status'', PyStr ''unknown'')]
      | Some descriptor \<Rightarrow>
          [(''model_id'', PyStr mid),
           (''name'', PyStr (name descriptor)),
           (''loaded'', PyBool (loaded descriptor)),
           (''enabled'', PyBool (enabled descriptor)),
           (''total_inferences'', PyInt (total_inferences descriptor)),
           (''avg_latency_ms'', PyFloat (py_round1 (avg_latency_ms descriptor)))])"

text \<open>
  The registry invariant the counters keep: an inference count is never negative (it
  starts at 0 and \<open>predict\<close> only increments it).
\<close>

definition counts_ok :: "ModelRegistry \<Rightarrow> bool" where
  "counts_ok reg = list_all (\<lambda>d. 0 \<le> total_inferences d) (dict_values (models reg))"

subsection \<open>A loaded registry for the examples\<close>

text \<open>
  The Yahoo model of the catalog, loaded, after one inference of 10 ms, with a session
  that answers \<open>[0.9, 0.1]\<close> for its one batch item.
\<close>

definition yahoo_descriptor :: ModelDescriptor where
  "yahoo_descriptor =
     \<lparr>model_id = ''yahoo_open_nsfw'', name = ''Yahoo Open NSFW'', version = ''1.0'',
       model_type = ''onnx'', task = ''nsfw_detection'', input_size = (224, 224),
       preprocessing = ''caffe'',
       categories = [''nsfw'', ''sfw''],
       weight = 0.30, enabled = True, model_path = ''/models/yahoo_open_nsfw.onnx'',
       source_url = ''https://github.com/yahoo/open_nsfw'', license = ''BSD-2-Clause'',
       loaded = True, total_inferences = 1, avg_latency_ms = 10, last_inference = Some 0\<rparr>"

definition yahoo_registry :: ModelRegistry where
  "yahoo_registry =
     \<lparr>models = [(''yahoo_open_nsfw'', yahoo_descriptor)],
      sessions = [(''yahoo_open_nsfw'', \<lambda>t. Inr [[[0.9, 0.1]]])]\<rparr>"

section \<open>Image preprocessing (\<open>ai-classifier/preprocessing.py\<close>)\<close>

text \<open>
  Decoding and resizing are the image library's work: \<open>decode\<close> takes the content and the
  \<open>(width, height)\<close> pair handed to \<open>resize\<close> and raises or returns the \<open>float32\<close> array, rows
  of RGB pixels.  The four adapters are the source's arithmetic on that array.  The
  parameter \<open>target\<close> is the source's \<open>target_size\<close>, a \<open>(height, width)\<close> pair.
\<close>

type_synonym image = "(real \<times> real \<times> real) list list"

text \<open>\<open>np.transpose(arr, (2, 0, 1))\<close> followed by \<open>np.expand_dims(arr, axis=0)\<close>.\<close>

definition to_nchw :: "image \<Rightarrow> tensor" where
  "to_nchw arr =
     [[map (map (\<lambda>(c0, c1, c2). c0)) arr,
       map (map (\<lambda>(c0, c1, c2). c1)) arr,
       map (map (\<lambda>(c0, c1, c2). c2)) arr]]"

definition imagenet :: "image \<Rightarrow> tensor" where
  "imagenet arr =
     to_nchw (map (map (\<lambda>(r, g, b).
       ((r / 255 - 0.485) / 0.229, (g / 255 - 0.456) / 0.224, (b / 255 - 0.406) / 0.225))) arr)"

definition caffe :: "image \<Rightarrow> tensor" where
  "caffe arr =
     to_nchw (map (map (\<lambda>(r, g, b). (b - 103.939, g - 116.779, r - 123.68))) arr)"

definition raw_0_1 :: "image \<Rightarrow> tensor" where
  "raw_0_1 arr = to_nchw (map (map (\<lambda>(r, g, b). (r / 255, g / 255, b / 255))) arr)"

definition clip :: "image \<Rightarrow> tensor" where
  "clip arr =
     to_nchw (map (map (\<lambda>(r, g, b).
       ((r / 255 - 0.48145466) / 0.26862954,
        (g / 255 - 0.4578275) / 0.26130258,
        (b / 255 - 0.40821073) / 0.27577711))) arr)"

definition preprocess ::
  "(bytes \<Rightarrow> int \<times> int \<Rightarrow> error + image) \<Rightarrow> bytes \<Rightarrow> int \<times> int \<Rightarrow> string \<Rightarrow> error + tensor" where
  "preprocess decode content target method =
     (case decode content (snd target, fst target) of
        Inl e \<Rightarrow> Inl e
      | Inr arr \<Rightarrow>
          if method = ''imagenet'' then Inr (imagenet arr)
          else if method = ''caffe'' then Inr (caffe arr)
          else if method = ''raw_0_1'' then Inr (raw_0_1 arr)
          else if method = ''clip'' then Inr (clip arr)
          else Inl (ValueError (''Unknown preprocessing method: '' @ method)))"

section \<open>The ensemble classifier (\<open>ai-classifier/ensemble.py\<close>)\<close>

definition CANONICAL_NSFW_CATEGORIES :: "string list" where
  "CANONICAL_NSFW_CATEGORIES =
     [''explicit_sexual'', ''suggestive'', ''violence_graphic'',
      ''violence_mild'', ''drugs'', ''safe'']"

definition CATEGORY_MAPPINGS :: "(string, (string, (string \<times> real) list) dict) dict" where
  "CATEGORY_MAPPINGS =
     [(''yahoo_open_nsfw'',
        [(''nsfw'', [(''explicit_sexual'', 0.7), (''suggestive'', 0.3)]),
         (''sfw'', [(''safe'', 1.0)])]),
      (''nudenet_v3'',
        [(''female_genitalia_exposed'', [(''explicit_sexual'', 1.0)]),
         (''male_genitalia_exposed'', [(''explicit_sexual'', 1.0)]),
         (''female_genitalia_covered'', [(''suggestive'', 0.8)]),
         (''buttocks_exposed'', [(''explicit_sexual'', 0.8), (''suggestive'', 0.2)]),
         (''female_breast_exposed'', [(''explicit_sexual'', 0.9), (''suggestive'', 0.1)]),
         (''female_breast_covered'', [(''suggestive'', 1.0)]),
         (''anus_exposed'', [(''explicit_sexual'', 1.0)]),
         (''belly_exposed'', [(''suggestive'', 0.5), (''safe'', 0.5)]),
         (''feet_exposed'', [(''safe'', 1.0)]),
         (''armpits_exposed'', [(''safe'', 1.0)]),
         (''face_male'', [(''safe'', 1.0)]),
         (''face_female'', [(''safe'', 1.0)]),
         (''safe'', [(''safe'', 1.0)])]),
      (''clip_safety'',
        [(''unsafe'', [(''explicit_sexual'', 0.4), (''suggestive'', 0.3), (''violence_graphic'', 0.3)]),
         (''safe'', [(''safe'', 1.0)])])]"

text \<open>
  One entry of \<open>model_results\<close>: the dictionary with the keys \<open>model_id\<close>, \<open>model_name\<close>,
  \<open>version\<close>, \<open>weight\<close>, \<open>raw_scores\<close> and \<open>normalized_scores\<close>.
\<close>

record model_result =
  result_model_id :: string
  result_model_name :: string
  result_version :: string
  result_weight :: real
  raw_scores :: "(string, real) dict"
  normalized_scores :: "(string, real) dict"

record EnsembleResult =
  ensemble_task :: string
  final_scores :: "(string, real) dict"
  model_results :: "model_result list"
  agreement_score :: real
  ensemble_method :: string

text \<open>\<open>_normalize_scores\<close>\<close>

definition normalize_scores :: "string \<Rightarrow> (string, real) dict \<Rightarrow> (string, real) dict" where
  "normalize_scores mid scores =
     (case dict_get CATEGORY_MAPPINGS mid of
        None \<Rightarrow> scores
      | Some mapping \<Rightarrow>
          fold (\<lambda>(cat, s) normalized.
                  fold (\<lambda>(target_cat, w) n.
                          case dict_get n target_cat of
                            None \<Rightarrow> n
                          | Some current \<Rightarrow> dict_set n target_cat (max current (s * w)))
                       (dict_get_default mapping cat []) normalized)
               scores
               (map (\<lambda>cat. (cat, 0)) CANONICAL_NSFW_CATEGORIES))"

text \<open>
  \<open>_weighted_average\<close>.  \<open>all_categories\<close> is a Python set, whose iteration order is not
  specified; the model takes the categories in order of appearance.  Only look-ups in the
  resulting dictionary are stated below, and they do not depend on that order.
\<close>

definition all_categories :: "model_result list \<Rightarrow> string list" where
  "all_categories results = remdups (concat (map (\<lambda>r. dict_keys (normalized_scores r)) results))"

definition weighted_average :: "model_result list \<Rightarrow> (string, real) dict" where
  "weighted_average results =
     (let total_weight = sum_list (map result_weight results)
      in fold (\<lambda>cat final.
                 (let weighted_sum =
                        sum_list (map (\<lambda>r. dict_get_default (normalized_scores r) cat 0 * result_weight r)
                                      results)
                  in dict_set final cat (if total_weight > 0 then weighted_sum / total_weight else 0)))
              (all_categories results) [])"

text \<open>
  \<open>max(scores, key=scores.get)\<close> on a dictionary whose first item is \<open>(k, v)\<close>: the first key,
  in iteration order, that holds the greatest value.
\<close>

fun max_key_from :: "'k \<Rightarrow> real \<Rightarrow> ('k, real) dict \<Rightarrow> 'k" where
  "max_key_from k v [] = k"
| "max_key_from k v ((k', v') # rest) =
     (if v' > v then max_key_from k' v' rest else max_key_from k v rest)"

text \<open>\<open>_majority_vote\<close>: \<open>if scores\<close> holds for a dictionary that is not empty.\<close>

definition majority_vote :: "model_result list \<Rightarrow> (string, real) dict" where
  "majority_vote results =
     (let votes =
            fold (\<lambda>r votes.
                    case normalized_scores r of
                      [] \<Rightarrow> votes
                    | (k, v) # rest \<Rightarrow>
                        (let top = max_key_from k v rest
                         in dict_set votes top (dict_get_default votes top (0::int) + 1)))
                 results [];
          total_votes = length results
      in map (\<lambda>(cat, count). (cat, real_of_int count / real total_votes)) votes)"

text \<open>\<open>_max_confidence\<close>: the loop keeps \<open>(best_result, best_confidence)\<close>.\<close>

definition max_confidence :: "model_result list \<Rightarrow> (string, real) dict" where
  "max_confidence results =
     (let best =
            fold (\<lambda>r (best_result, best_confidence).
                    (let max_score = max_default (dict_values (normalized_scores r)) 0
                     in if max_score > best_confidence then (Some r, max_score)
                        else (best_result, best_confidence)))
                 results (None, - 1)
      in case fst best of None \<Rightarrow> [] | Some r \<Rightarrow> normalized_scores r)"

text \<open>\<open>np.std\<close>: the population standard deviation.\<close>

definition np_std :: "real list \<Rightarrow> real" where
  "np_std xs =
     (let n = real (length xs); mean = sum_list xs / n
      in sqrt (sum_list (map (\<lambda>x. (x - mean)\<^sup>2) xs) / n))"

definition top_category :: "(string, real) dict \<Rightarrow> string option" where
  "top_category scores = (case scores of [] \<Rightarrow> None | (k, v) # rest \<Rightarrow> Some (max_key_from k v rest))"

definition compute_agreement :: "model_result list \<Rightarrow> real" where
  "compute_agreement results =
     (if length results \<le> 1 then 1
      else
        (let top_categories = List.map_filter (\<lambda>r. top_category (normalized_scores r)) results
         in if top_categories = [] then 0
            else if list_all (\<lambda>c. c = hd top_categories) top_categories then
              (let top_scores =
                     map (\<lambda>r. max_default (dict_values (normalized_scores r)) 0)
                         (filter (\<lambda>r. normalized_scores r \<noteq> []) results)
               in if top_scores \<noteq> [] then max 0 (min 1 (1 - np_std top_scores)) else 1)
            else
              real (Max (set (map (count_list top_categories) (remdups top_categories))))
              / real (length top_categories)))"

text \<open>
  What \<open>classify_ensemble\<close> takes from outside: the image decoder and the clock of
  \<open>predict\<close>, which gives each model's inference its duration and its time stamp.
\<close>

record environment =
  decode_image :: "bytes \<Rightarrow> int \<times> int \<Rightarrow> error + image"
  elapsed_ms_of :: "string \<Rightarrow> real"
  utcnow_of :: "string \<Rightarrow> real"

text \<open>
  The scores of one model: \<open>scores[category] = float(raw_output[i])\<close> for every category
  whose index is within the output.
\<close>

definition scores_of_output :: "string list \<Rightarrow> real list \<Rightarrow> (string, real) dict" where
  "scores_of_output cats raw_output =
     fold (\<lambda>(i, cat) scores. if i < length raw_output then dict_set scores cat (raw_output ! i) else scores)
          (enumerate 0 cats) []"

text \<open>
  The loop over the models of \<open>classify_ensemble\<close>: an unloaded model is skipped, a model
  whose preprocessing or prediction raises is logged and skipped, a successful one appends
  its entry.  The descriptor fields the loop reads are not among those \<open>predict\<close> writes,
  so the descriptors fetched before the loop stand for the registry's objects.
\<close>

fun run_models ::
  "environment \<Rightarrow> bytes \<Rightarrow> ModelDescriptor list \<Rightarrow> ModelRegistry \<Rightarrow> model_result list
     \<Rightarrow> model_result list \<times> ModelRegistry" where
  "run_models env content [] reg acc = (acc, reg)"
| "run_models env content (descriptor # rest) reg acc =
     (if \<not> loaded descriptor then run_models env content rest reg acc
      else
        (case preprocess (decode_image env) content (input_size descriptor) (preprocessing descriptor) of
           Inl e \<Rightarrow> run_models env content rest reg acc
         | Inr preprocessed \<Rightarrow>
             (case predict reg (model_id descriptor) preprocessed
                     (elapsed_ms_of env (model_id descriptor)) (utcnow_of env (model_id descriptor)) of
                (Inl e, reg') \<Rightarrow> run_models env content rest reg' acc
              | (Inr raw_output, reg') \<Rightarrow>
                  (let scores = scores_of_output (categories descriptor) raw_output
                   in run_models env content rest reg'
                        (acc @ [\<lparr>result_model_id = model_id descriptor,
                                 result_model_name = name descriptor,
                                 result_version = version descriptor,
                                 result_weight = weight descriptor,
                                 raw_scores = scores,
                                 normalized_scores = normalize_scores (model_id descriptor) scores\<rparr>])))))"

definition classify_ensemble ::
  "environment \<Rightarrow> ModelRegistry \<Rightarrow> bytes \<Rightarrow> string \<Rightarrow> string \<Rightarrow> EnsembleResult \<times> ModelRegistry" where
  "classify_ensemble env reg content tsk method =
     (let ms = get_models_for_task reg tsk
      in if ms = [] then
           (\<lparr>ensemble_task = tsk, final_scores = [], model_results = [],
             agreement_score = 1, ensemble_method = method\<rparr>, reg)
         else
           (case run_models env content ms reg [] of
              (results, reg') \<Rightarrow>
                if results = [] then
                  (\<lparr>ensemble_task = tsk, final_scores = [], model_results = [],
                    agreement_score = 0, ensemble_method = method\<rparr>, reg')
                else
                  (let final =
                         (if method = ''weighted_average'' then weighted_average results
                          else if method = ''majority_vote'' then majority_vote results
                          else if method = ''max_confidence'' then max_confidence results
                          else weighted_average results);
                       agreement = compute_agreement results
                   in (\<lparr>ensemble_task = tsk, final_scores = final, model_results = results,
                        agreement_score = agreement, ensemble_method = method\<rparr>, reg'))))"

subsection \<open>Reference notions for the ensemble properties\<close>

text \<open>
  An invocation of a loaded model fails when its preprocessing raises or its prediction
  raises.
\<close>

definition invocation_fails :: "environment \<Rightarrow> ModelRegistry \<Rightarrow> bytes \<Rightarrow> ModelDescriptor \<Rightarrow> bool" where
  "invocation_fails env reg content d =
     (case preprocess (decode_image env) content (input_size d) (preprocessing d) of
        Inl e \<Rightarrow> True
      | Inr preprocessed \<Rightarrow>
          isl (fst (predict reg (model_id d) preprocessed
                      (elapsed_ms_of env (model_id d)) (utcnow_of env (model_id d)))))"

text \<open>
  The score the specification's formula gives a category,
  \<open>\<Sigma>(normalized_score_i * weight_i) / \<Sigma>(weight_i)\<close> over all the models, a model that does
  not report the category contributing 0: a quotient, which has no value when the weights
  sum to zero.
\<close>

definition weighted_sum_of :: "model_result list \<Rightarrow> string \<Rightarrow> real" where
  "weighted_sum_of results cat =
     (\<Sum>r\<leftarrow>results. (case dict_get (normalized_scores r) cat of None \<Rightarrow> 0 | Some s \<Rightarrow> s * result_weight r))"

definition total_weight_of :: "model_result list \<Rightarrow> real" where
  "total_weight_of results = (\<Sum>r\<leftarrow>results. result_weight r)"

definition quotient_score :: "model_result list \<Rightarrow> string \<Rightarrow> real option" where
  "quotient_score results cat =
     (if total_weight_of results = 0 then None
      else Some (weighted_sum_of results cat / total_weight_of results))"

definition reported_categories :: "model_result list \<Rightarrow> string set" where
  "reported_categories results = (\<Union>r\<in>set results. fst ` set (normalized_scores r))"

subsection \<open>Inputs for the ensemble examples\<close>

text \<open>
  An environment whose image decoder rejects the content; the results of two models with
  weights 0.6 and 0.4, the first reporting \<open>explicit\<close> at 0.8 and the second not reporting
  it; and the result of a single model of weight 0.
\<close>

definition broken_image_env :: environment where
  "broken_image_env =
     \<lparr>decode_image = (\<lambda>content sz. Inl (ExternalError ''cannot identify image file'')),
      elapsed_ms_of = (\<lambda>mid. 20),
      utcnow_of = (\<lambda>mid. 5)\<rparr>"

definition two_model_results :: "model_result list" where
  "two_model_results =
     [\<lparr>result_model_id = ''model_a'', result_model_name = ''A'', result_version = ''1'',
       result_weight = 0.6, raw_scores = [(''explicit'', 0.8)],
       normalized_scores = [(''explicit'', 0.8)]\<rparr>,
      \<lparr>result_model_id = ''model_b'', result_model_name = ''B'', result_version = ''1'',
       result_weight = 0.4, raw_scores = [(''safe'', 0.9)],
       normalized_scores = [(''safe'', 0.9)]\<rparr>]"

definition zero_weight_results :: "model_result list" where
  "zero_weight_results =
     [\<lparr>result_model_id = ''model_a'', result_model_name = ''A'', result_version = ''1'',
       result_weight = 0, raw_scores = [(''explicit'', 0.8)],
       normalized_scores = [(''explicit'', 0.8)]\<rparr>]"

section \<open>The perceptual hashing service (\<open>hashing/service.py\<close>)\<close>

record HashResult =
  sha256 :: string
  phash :: "string option"
  pdq_hash :: "string option"
  pdq_quality :: "int option"
  photodna_hash :: "bytes option"
  computed_at :: real
  errors :: "string list"

record SimilarityMatch =
  match_sha256 :: string
  hash_type :: string
  match_distance :: int
  matched_database :: string
  match_classification :: string
  match_confidence :: real

record HashingSettings =
  enable_phash :: bool
  enable_pdq :: bool
  enable_photodna :: bool
  hamming_distance_threshold :: int

text \<open>
  The three hash computations belong to the image libraries and to the PhotoDNA client:
  each takes the content and raises or returns its hash (PDQ with its quality).  The
  client is optional, as \<open>photodna_client=None\<close> in the constructor.
\<close>

record hash_algorithms =
  compute_phash :: "bytes \<Rightarrow> error + string"
  compute_pdq :: "bytes \<Rightarrow> error + (string \<times> int)"
  photodna_client :: "(bytes \<Rightarrow> error + bytes) option"

text \<open>
  \<open>compute_all_hashes\<close>: three guarded blocks, each catching what its algorithm raises and
  appending \<open>"<name>: <message>"\<close> to \<open>errors\<close>.  \<open>now\<close> is the time stamp of the result.
\<close>

definition compute_all_hashes ::
  "HashingSettings \<Rightarrow> hash_algorithms \<Rightarrow> bytes \<Rightarrow> string \<Rightarrow> real \<Rightarrow> HashResult" where
  "compute_all_hashes settings algs content sha now =
     (let result0 = \<lparr>sha256 = sha, phash = None, pdq_hash = None, pdq_quality = None,
                      photodna_hash = None, computed_at = now, errors = []\<rparr>;
          result1 =
            (if enable_phash settings then
               (case compute_phash algs content of
                  Inr h \<Rightarrow> result0\<lparr>phash := Some h\<rparr>
                | Inl e \<Rightarrow> result0\<lparr>errors := errors result0 @ [''phash: '' @ str_of_error e]\<rparr>)
             else result0);
          result2 =
            (if enable_pdq settings then
               (case compute_pdq algs content of
                  Inr (pdq, quality) \<Rightarrow> result1\<lparr>pdq_hash := Some pdq, pdq_quality := Some quality\<rparr>
                | Inl e \<Rightarrow> result1\<lparr>errors := errors result1 @ [''pdq: '' @ str_of_error e]\<rparr>)
             else result1);
          result3 =
            (if enable_photodna settings then
               (case photodna_client algs of
                  None \<Rightarrow> result2
                | Some compute_hash \<Rightarrow>
                    (case compute_hash content of
                       Inr h \<Rightarrow> result2\<lparr>photodna_hash := Some h\<rparr>
                     | Inl e \<Rightarrow> result2\<lparr>errors := errors result2 @ [''photodna: '' @ str_of_error e]\<rparr>))
             else result2)
      in result3)"

text \<open>
  The hash index, an interface in the source.  An entry is the dictionary a search
  returns: \<open>distance\<close>, \<open>database\<close> and \<open>classification\<close> are always read, \<open>confidence\<close>
  may be missing.  A search raises or returns its entries.
\<close>

record index_entry =
  entry_distance :: int
  entry_database :: string
  entry_classification :: string
  entry_confidence :: "real option"

record hash_index =
  search_phash :: "string \<Rightarrow> int \<Rightarrow> error + index_entry list"
  search_pdq :: "string \<Rightarrow> int \<Rightarrow> error + index_entry list"
  search_photodna :: "bytes \<Rightarrow> int \<Rightarrow> error + index_entry list"

text \<open>
  \<open>search_known_databases\<close>.  \<open>if hash_result.phash\<close> holds for a hash that is present and
  not empty.  What a search raises is not caught.
\<close>

definition truthy :: "'a list option \<Rightarrow> bool" where
  "truthy v = (case v of None \<Rightarrow> False | Some xs \<Rightarrow> xs \<noteq> [])"

definition phash_match :: "HashResult \<Rightarrow> index_entry \<Rightarrow> SimilarityMatch" where
  "phash_match hash_result m =
     \<lparr>match_sha256 = sha256 hash_result, hash_type = ''phash'', match_distance = entry_distance m,
      matched_database = entry_database m, match_classification = entry_classification m,
      match_confidence = 1 - real_of_int (entry_distance m) / 64\<rparr>"

definition pdq_match :: "HashResult \<Rightarrow> index_entry \<Rightarrow> SimilarityMatch" where
  "pdq_match hash_result m =
     \<lparr>match_sha256 = sha256 hash_result, hash_type = ''pdq'', match_distance = entry_distance m,
      matched_database = entry_database m, match_classification = entry_classification m,
      match_confidence = 1 - real_of_int (entry_distance m) / 256\<rparr>"

definition photodna_match :: "HashResult \<Rightarrow> index_entry \<Rightarrow> SimilarityMatch" where
  "photodna_match hash_result m =
     \<lparr>match_sha256 = sha256 hash_result, hash_type = ''photodna'', match_distance = entry_distance m,
      matched_database = entry_database m, match_classification = entry_classification m,
      match_confidence = (case entry_confidence m of None \<Rightarrow> 0.9 | Some c \<Rightarrow> c)\<rparr>"

definition search_known_databases ::
  "HashingSettings \<Rightarrow> hash_index \<Rightarrow> HashResult \<Rightarrow> error + SimilarityMatch list" where
  "search_known_databases settings hash_db hash_result =
     (case (if truthy (phash hash_result)
            then search_phash hash_db (the (phash hash_result)) (hamming_distance_threshold settings)
            else Inr []) of
        Inl e \<Rightarrow> Inl e
      | Inr phash_matches \<Rightarrow>
          (case (if truthy (pdq_hash hash_result)
                 then search_pdq hash_db (the (pdq_hash hash_result)) (hamming_distance_threshold settings)
                 else Inr []) of
             Inl e \<Rightarrow> Inl e
           | Inr pdq_matches \<Rightarrow>
               (case (if truthy (photodna_hash hash_result)
                      then search_photodna hash_db (the (photodna_hash hash_result))
                             (hamming_distance_threshold settings)
                      else Inr []) of
                  Inl e \<Rightarrow> Inl e
                | Inr pdna_matches \<Rightarrow>
                    Inr (map (phash_match hash_result) phash_matches
                         @ map (pdq_match hash_result) pdq_matches
                         @ map (photodna_match hash_result) pdna_matches))))"

subsection \<open>Hamming distance\<close>

text \<open>
  \<open>int(s, 16)\<close> on a string of code points below 256, as CPython reads it: white space
  around the literal, an optional sign, an optional \<open>0x\<close> prefix, then hexadecimal digits,
  single underscores allowed between them and after the prefix.  Anything else raises
  \<open>ValueError\<close>.  The white space is the six ASCII characters and, of the code points
  from 128 on, the next-line and no-break-space characters, which CPython turns into a
  space before it reads the literal; the separators \<open>0x1C\<close> to \<open>0x1F\<close> are not skipped.
\<close>

definition is_space :: "char \<Rightarrow> bool" where
  "is_space c =
     (c \<in> set [CHR '' '', CHR 0x09, CHR 0x0A, CHR 0x0B, CHR 0x0C, CHR 0x0D, CHR 0x85, CHR 0xA0])"

definition hex_digit :: "char \<Rightarrow> nat option" where
  "hex_digit c =
     (let n = (of_char c :: nat)
      in if 48 \<le> n \<and> n \<le> 57 then Some (n - 48)
         else if 97 \<le> n \<and> n \<le> 102 then Some (n - 87)
         else if 65 \<le> n \<and> n \<le> 70 then Some (n - 55)
         else None)"

definition digit_or_underscore :: "char \<Rightarrow> bool" where
  "digit_or_underscore c = (hex_digit c \<noteq> None \<or> c = CHR ''_'')"

fun double_underscore :: "string \<Rightarrow> bool" where
  "double_underscore (a # b # rest) =
     ((a = CHR ''_'' \<and> b = CHR ''_'') \<or> double_underscore (b # rest))"
| "double_underscore s = False"

definition digits_value :: "string \<Rightarrow> nat" where
  "digits_value s = fold (\<lambda>c acc. case hex_digit c of None \<Rightarrow> acc | Some v \<Rightarrow> 16 * acc + v) s 0"

definition int_base16 :: "string \<Rightarrow> error + int" where
  "int_base16 s =
     (let s1 = dropWhile is_space s;
          negative = (s1 \<noteq> [] \<and> hd s1 = CHR ''-'');
          s2 = (if s1 \<noteq> [] \<and> (hd s1 = CHR ''+'' \<or> hd s1 = CHR ''-'') then tl s1 else s1);
          s3 = (case s2 of
                  a # b # rest \<Rightarrow>
                    if a = CHR ''0'' \<and> (b = CHR ''x'' \<or> b = CHR ''X'')
                    then (case rest of u # rest' \<Rightarrow> if u = CHR ''_'' then rest' else rest | [] \<Rightarrow> rest)
                    else s2
                | _ \<Rightarrow> s2);
          digits = takeWhile digit_or_underscore s3;
          trailing = dropWhile is_space (dropWhile digit_or_underscore s3)
      in if digits = [] \<or> hd digits = CHR ''_'' \<or> double_underscore digits
            \<or> last digits = CHR ''_'' \<or> trailing \<noteq> []
         then Inl (ValueError ''invalid literal for int() with base 16'')
         else Inr (if negative then - int (digits_value digits) else int (digits_value digits)))"

text \<open>\<open>bin(x)\<close> and \<open>s.count("1")\<close>.\<close>

fun bin_digits :: "nat \<Rightarrow> string" where
  "bin_digits n =
     (if n < 2 then [if n = 0 then CHR ''0'' else CHR ''1'']
      else bin_digits (n div 2) @ [if even n then CHR ''0'' else CHR ''1''])"

declare bin_digits.simps [simp del]

definition py_bin :: "int \<Rightarrow> string" where
  "py_bin x = (if x < 0 then ''-0b'' @ bin_digits (nat (- x)) else ''0b'' @ bin_digits (nat x))"

definition str_count :: "string \<Rightarrow> char \<Rightarrow> int" where
  "str_count s c = int (length (filter (\<lambda>x. x = c) s))"

definition hamming_distance_hex :: "string \<Rightarrow> string \<Rightarrow> error + int" where
  "hamming_distance_hex hash1 hash2 =
     (if length hash1 \<noteq> length hash2 then Inl (ValueError ''Hash lengths must match'')
      else
        (case int_base16 hash1 of
           Inl e \<Rightarrow> Inl e
         | Inr val1 \<Rightarrow>
             (case int_base16 hash2 of
                Inl e \<Rightarrow> Inl e
              | Inr val2 \<Rightarrow> Inr (str_count (py_bin (val1 XOR val2)) CHR ''1''))))"

definition hamming_distance_bytes :: "bytes \<Rightarrow> bytes \<Rightarrow> error + int" where
  "hamming_distance_bytes hash1 hash2 =
     (if length hash1 \<noteq> length hash2 then Inl (ValueError ''Hash lengths must match'')
      else Inr (fold (\<lambda>(b1, b2) dist. dist + str_count (py_bin (uint (b1 XOR b2))) CHR ''1'')
                     (zip hash1 hash2) 0))"

subsection \<open>Reference notions for the hashing properties\<close>

text \<open>
  A hex-encoded hash is a string of hexadecimal digits that is not empty; its value is
  the number it writes.  The number of set bits of a number, and of a byte string (the
  pairs of a byte position and a bit position where the bit is set).  The exclusive or of
  two byte strings is taken byte by byte.
\<close>

definition is_hex_hash :: "string \<Rightarrow> bool" where
  "is_hex_hash s = (s \<noteq> [] \<and> list_all (\<lambda>c. hex_digit c \<noteq> None) s)"

definition hex_value :: "string \<Rightarrow> nat" where
  "hex_value s = foldl (\<lambda>acc c. 16 * acc + (case hex_digit c of None \<Rightarrow> 0 | Some v \<Rightarrow> v)) 0 s"

definition set_bit_count :: "nat \<Rightarrow> nat" where
  "set_bit_count n = card {i. bit n i}"

definition bytes_xor :: "bytes \<Rightarrow> bytes \<Rightarrow> bytes" where
  "bytes_xor a b = map (\<lambda>(x, y). x XOR y) (zip a b)"

definition set_bit_count_bytes :: "bytes \<Rightarrow> nat" where
  "set_bit_count_bytes ws = card {(i, j). i < length ws \<and> bit (ws ! i) j}"

text \<open>
  What an algorithm's outcome leaves in the result: its value when it returned one, and
  the entry \<open>"<name>: <message>"\<close> in \<open>errors\<close> when it raised.
\<close>

definition hash_value_of :: "error + 'a \<Rightarrow> 'a option" where
  "hash_value_of outcome = (case outcome of Inl e \<Rightarrow> None | Inr v \<Rightarrow> Some v)"

definition error_entry :: "string \<Rightarrow> error + 'a \<Rightarrow> string list" where
  "error_entry tag outcome =
     (case outcome of Inl e \<Rightarrow> [tag @ '': '' @ str_of_error e] | Inr v \<Rightarrow> [])"

subsection \<open>Inputs for the hashing examples\<close>

text \<open>
  Settings with every algorithm enabled; algorithms of which pHash raises, and of which
  all raise, with a PhotoDNA client and without one (the constructor's default); a hash
  index whose entries carry no \<open>confidence\<close>; a result that holds a PhotoDNA hash only,
  and one that holds all three hashes.
\<close>

definition all_enabled :: HashingSettings where
  "all_enabled =
     \<lparr>enable_phash = True, enable_pdq = True, enable_photodna = True,
      hamming_distance_threshold = 10\<rparr>"

definition phash_broken :: hash_algorithms where
  "phash_broken =
     \<lparr>compute_phash = (\<lambda>content. Inl (ExternalError ''cannot identify image file'')),
      compute_pdq = (\<lambda>content. Inr (''f0f0'', 87)),
      photodna_client = Some (\<lambda>content. Inr [1, 2, 3])\<rparr>"

definition all_broken :: hash_algorithms where
  "all_broken =
     \<lparr>compute_phash = (\<lambda>content. Inl (ExternalError ''cannot identify image file'')),
      compute_pdq = (\<lambda>content. Inl (ExternalError ''cannot identify image file'')),
      photodna_client = Some (\<lambda>content. Inl (ExternalError ''service unavailable''))\<rparr>"

definition all_broken_no_client :: hash_algorithms where
  "all_broken_no_client =
     \<lparr>compute_phash = (\<lambda>content. Inl (ExternalError ''cannot identify image file'')),
      compute_pdq = (\<lambda>content. Inl (ExternalError ''cannot identify image file'')),
      photodna_client = None\<rparr>"

definition photodna_only_result :: HashResult where
  "photodna_only_result =
     \<lparr>sha256 = ''ab12'', phash = None, pdq_hash = None, pdq_quality = None,
      photodna_hash = Some [1, 2, 3], computed_at = 0, errors = []\<rparr>"

definition bare_entry :: index_entry where
  "bare_entry =
     \<lparr>entry_distance = 3, entry_database = ''ncmec'', entry_classification = ''known'',
      entry_confidence = None\<rparr>"

definition bare_index :: hash_index where
  "bare_index =
     \<lparr>search_phash = (\<lambda>h d. Inr [bare_entry]),
      search_pdq = (\<lambda>h d. Inr [bare_entry]),
      search_photodna = (\<lambda>h d. Inr [bare_entry])\<rparr>"

definition all_hashes_result :: HashResult where
  "all_hashes_result =
     \<lparr>sha256 = ''ab12'', phash = Some ''ff00ff00ff00ff00'', pdq_hash = Some ''f0f0'',
      pdq_quality = Some 87, photodna_hash = Some [1, 2, 3], computed_at = 0, errors = []\<rparr>"

section \<open>Properties of the classification service\<close>

lemma map_of_dict_set: "map_of (dict_set d k v) = (map_of d)(k \<mapsto> v)"
  by (induction d) (auto simp: fun_eq_iff)

lemma map_of_fold_score:
  "map_of (fold (\<lambda>s d. dict_set d (category s) (score s)) xs d0) c =
     (case filter (\<lambda>s. category s = c) xs of [] \<Rightarrow> map_of d0 c | y # ys \<Rightarrow> Some (score (last (y # ys))))"
proof (induction xs arbitrary: d0)
  case Nil
  then show ?case by simp
next
  case (Cons x xs)
  show ?case
    by (simp add: Cons.IH map_of_dict_set split: list.splits)
qed

lemma score_map_get: "dict_get_default (score_map_of xs) c 0 = category_score xs c"
  by (simp add: dict_get_default_def score_map_of_def map_of_fold_score category_score_def split: list.splits)

lemma category_score_distinct:
  assumes "distinct (map category xs)" and "s \<in> set xs"
  shows "category_score xs (category s) = score s"
proof -
  have "filter (\<lambda>t. category t = category s) xs = [s]"
    using assms
  proof (induction xs)
    case Nil
    then show ?case by simp
  next
    case (Cons x xs)
    show ?case
    proof (cases "x = s")
      case True
      have "filter (\<lambda>t. category t = category s) xs = []"
        using Cons.prems(1) True by (force simp: filter_empty_conv image_iff)
      with True show ?thesis by simp
    next
      case False
      with Cons.prems have "s \<in> set xs" by simp
      moreover from this Cons.prems(1) have "category x \<noteq> category s" by force
      ultimately show ?thesis using Cons by simp
    qed
  qed
  then show ?thesis by (simp add: category_score_def)
qed

lemma max_default_Max: "max_default xs d = (if xs = [] then d else Max (set xs))"
proof (cases xs)
  case Nil
  then show ?thesis by simp
next
  case (Cons a list)
  then show ?thesis using Max.set_eq_fold [of a list] by simp
qed

lemma category_peak_list:
  "category_peak xs cats = max_default (map score (filter (\<lambda>s. category s \<in> cats) xs)) 0"
proof -
  have "score ` {s \<in> set xs. category s \<in> cats} = set (map score (filter (\<lambda>s. category s \<in> cats) xs))"
    by auto
  then show ?thesis
    by (simp add: category_peak_def max_default_Max Let_def del: set_map)
qed

text \<open>
  Claim C2.  The primary classification is decided in this order, first match winning:
  \<open>csam_score \<ge> csam_alert_threshold\<close> gives \<open>CSAM_SUSPECT\<close>; else the scores of
  \<open>explicit_sexual\<close>, \<open>violence_graphic\<close>, \<open>violence_mild\<close>, \<open>suggestive\<close> and \<open>drugs\<close>
  are compared in turn with \<open>confidence_threshold\<close> (strictly greater), giving the matching
  category; else \<open>SAFE\<close>.  The witness is the case \<open>csam_score = 0.90\<close>, threshold 0.85,
  \<open>explicit_sexual = 0.95\<close>, threshold 0.7: the result is \<open>CSAM_SUSPECT\<close>.
\<close>

theorem determine_classification_priority:
  "determine_classification settings nsfw_scores csam_score =
     (if csam_score \<ge> csam_alert_threshold settings then CSAM_SUSPECT
      else if category_score nsfw_scores ''explicit_sexual'' > confidence_threshold settings
        then EXPLICIT_SEXUAL
      else if category_score nsfw_scores ''violence_graphic'' > confidence_threshold settings
        then VIOLENCE_GRAPHIC
      else if category_score nsfw_scores ''violence_mild'' > confidence_threshold settings
        then VIOLENCE_MILD
      else if category_score nsfw_scores ''suggestive'' > confidence_threshold settings
        then SUGGESTIVE
      else if category_score nsfw_scores ''drugs'' > confidence_threshold settings
        then DRUGS
      else SAFE)"
  by (simp add: determine_classification_def Let_def score_map_get)

theorem determine_classification_priority_witness:
  "determine_classification \<lparr>confidence_threshold = 0.7, csam_alert_threshold = 0.85\<rparr>
     [\<lparr>category = ''explicit_sexual'', score = 0.95, model_name = ''nsfw_detector'',
       model_version = ''v3''\<rparr>] 0.90 = CSAM_SUSPECT
   \<and> determine_classification \<lparr>confidence_threshold = 0.7, csam_alert_threshold = 0.85\<rparr>
     [\<lparr>category = ''explicit_sexual'', score = 0.95, model_name = ''nsfw_detector'',
       model_version = ''v3''\<rparr>] 0.90 \<noteq> EXPLICIT_SEXUAL"
  using determine_classification_priority
    [of "\<lparr>confidence_threshold = 0.7, csam_alert_threshold = 0.85\<rparr>"
        "[\<lparr>category = ''explicit_sexual'', score = 0.95, model_name = ''nsfw_detector'',
           model_version = ''v3''\<rparr>]" "0.90"]
  by simp

lemma peak_single:
  "max_default (map score (filter (\<lambda>s. category s = c) xs)) 0 = category_peak xs {c}"
  by (simp add: category_peak_list)

lemma peak_risky:
  "max_default (map score (filter (\<lambda>s. category s \<in> set risky_scenes) xs)) 0 =
     category_peak xs {''scene_indoor_bedroom'', ''scene_indoor_bathroom'', ''scene_indoor_school''}"
proof -
  have "set risky_scenes = {''scene_indoor_bedroom'', ''scene_indoor_bathroom'', ''scene_indoor_school''}"
    unfolding risky_scenes_def by (simp only: list.set)
  then show ?thesis by (simp only: category_peak_list)
qed

text \<open>
  Claim C3.  The composite CSAM risk score is
  \<open>clamp(0.35 * explicit + 0.40 * minor_score + 0.15 * scene_risk + 0.10 * (suggestive * minor_score), 0, 1)\<close>,
  where \<open>minor_score\<close> is \<open>confidence * max(0, (18 - age) / 18)\<close> when an age estimation
  with \<open>is_minor_likely\<close> is present and 0 otherwise, and \<open>scene_risk\<close> is the maximum score
  among the bedroom, bathroom and school scene categories (0 when there is none).  The
  witness is the case explicit = 1, age = 10, confidence = 1, no risky scene,
  suggestive = 0: the score is 19/36, which is 0.5278 to four decimals.
\<close>

theorem compute_csam_risk_formula:
  "compute_csam_risk nsfw_scores age_estimation scene_scores =
     min 1 (max 0
       (0.35 * category_peak nsfw_scores {''explicit_sexual''}
        + 0.40 * minor_score age_estimation
        + 0.15 * category_peak scene_scores
            {''scene_indoor_bedroom'', ''scene_indoor_bathroom'', ''scene_indoor_school''}
        + 0.10 * (category_peak nsfw_scores {''suggestive''} * minor_score age_estimation)))"
proof -
  have m: "(case age_estimation of
               None \<Rightarrow> 0
             | Some a \<Rightarrow>
                 if is_minor_likely a
                 then (let age_factor = max 0 ((18 - estimated_age a) / 18)
                       in confidence a * age_factor)
                 else 0) = minor_score age_estimation"
    by (simp only: minor_score_def Let_def)
  show ?thesis
    unfolding compute_csam_risk_def peak_single peak_risky m
    by (simp only: Let_def)
qed

theorem compute_csam_risk_formula_witness:
  "compute_csam_risk
     [\<lparr>category = ''explicit_sexual'', score = 1, model_name = ''nsfw_detector'', model_version = ''v3''\<rparr>,
      \<lparr>category = ''suggestive'', score = 0, model_name = ''nsfw_detector'', model_version = ''v3''\<rparr>]
     (Some \<lparr>estimated_age = 10, age_range_low = 8, age_range_high = 12, confidence = 1,
            is_minor_likely = True, age_model_name = ''age_estimator_v2''\<rparr>)
     [] = 19 / 36
   \<and> \<bar>(19 / 36 :: real) - 0.5278\<bar> < 0.00005"
  using compute_csam_risk_formula
    [of "[\<lparr>category = ''explicit_sexual'', score = 1, model_name = ''nsfw_detector'', model_version = ''v3''\<rparr>,
          \<lparr>category = ''suggestive'', score = 0, model_name = ''nsfw_detector'', model_version = ''v3''\<rparr>]"
        "Some \<lparr>estimated_age = 10, age_range_low = 8, age_range_high = 12, confidence = 1,
            is_minor_likely = True, age_model_name = ''age_estimator_v2''\<rparr>"
        "[]"]
  by (simp add: category_peak_list minor_score_def)

text \<open>
  Claim C8.  A result is routed to human review exactly when the classification is
  \<open>CSAM_SUSPECT\<close>, or \<open>csam_score > 0.5\<close>, or an age estimation with \<open>is_minor_likely\<close> is
  present and \<open>nsfw_score > 0.3\<close>.  The witness is the case \<open>SAFE\<close>, \<open>csam_score = 0.51\<close>,
  no likely minor: review is required.
\<close>

theorem should_route_to_review_iff:
  "should_route_to_review classification csam_score nsfw_score age_est \<longleftrightarrow>
     classification = CSAM_SUSPECT
     \<or> csam_score > 0.5
     \<or> ((\<exists>a. age_est = Some a \<and> is_minor_likely a) \<and> nsfw_score > 0.3)"
  by (auto simp: should_route_to_review_def split: option.splits)

theorem should_route_to_review_iff_witness:
  "should_route_to_review SAFE 0.51 0
     (Some \<lparr>estimated_age = 30, age_range_low = 28, age_range_high = 32, confidence = 0.9,
            is_minor_likely = False, age_model_name = ''age_estimator_v2''\<rparr>)
   \<and> should_route_to_review SAFE 0.51 0 None"
  using should_route_to_review_iff [of SAFE "0.51" 0
     "Some \<lparr>estimated_age = 30, age_range_low = 28, age_range_high = 32, confidence = 0.9,
            is_minor_likely = False, age_model_name = ''age_estimator_v2''\<rparr>"]
    should_route_to_review_iff [of SAFE "0.51" 0 None]
  by simp

section \<open>Properties of the model registry\<close>

lemma dict_get_dict_set: "dict_get (dict_set d k v) k' = (if k' = k then Some v else dict_get d k')"
  by (simp add: dict_get_def map_of_dict_set)

lemma predict_not_loaded:
  "dict_get (sessions reg) mid = None \<Longrightarrow>
     predict reg mid x el now = (Inl (RuntimeError (''Model '' @ mid @ '' is not loaded'')), reg)"
  by (simp add: predict_def)

lemma predict_failure_keeps_registry:
  assumes nonneg: "\<And>d. dict_get (models reg) mid = Some d \<Longrightarrow> 0 \<le> total_inferences d"
    and fails: "predict reg mid x el now = (Inl e, reg')"
  shows "reg' = reg"
proof (cases "dict_get (sessions reg) mid")
  case None
  with fails show ?thesis by (simp add: predict_def)
next
  case (Some s)
  show ?thesis
  proof (cases "dict_get (models reg) mid")
    case None
    with Some fails show ?thesis by (simp add: predict_def)
  next
    case (Some d)
    from nonneg [OF Some] have "total_inferences d + 1 \<noteq> 0" by simp
    with fails \<open>dict_get (sessions reg) mid = Some s\<close> Some show ?thesis
      by (simp add: predict_def Let_def split: sum.splits list.splits if_splits)
  qed
qed

lemma predict_success_counters:
  assumes d: "dict_get (models reg) mid = Some d"
    and ok: "predict reg mid x el now = (Inr result, reg')"
  shows "\<exists>d'. dict_get (models reg') mid = Some d'
               \<and> total_inferences d' = total_inferences d + 1
               \<and> avg_latency_ms d' =
                   (avg_latency_ms d * of_int (total_inferences d' - 1) + el)
                   / of_int (total_inferences d')"
proof (cases "dict_get (sessions reg) mid")
  case None
  with ok show ?thesis by (simp add: predict_def)
next
  case (Some s)
  with ok d show ?thesis
    by (auto simp: predict_def Let_def dict_get_dict_set split: sum.splits list.splits if_splits)
qed

lemma predict_success_result:
  assumes "dict_get (models reg) mid = Some d" and "0 \<le> total_inferences d"
    and "dict_get (sessions reg) mid = Some s" and "model_type d = ''onnx''"
    and "s x = Inr ((r # rs) # os)"
  shows "fst (predict reg mid x el now) = Inr r"
  using assms by (simp add: predict_def Let_def)

lemma predict_session_raises:
  assumes "dict_get (models reg) mid = Some d" and "dict_get (sessions reg) mid = Some s"
    and "model_type d = ''onnx''" and "s x = Inl e"
  shows "predict reg mid x el now = (Inl e, reg)"
  using assms by (simp add: predict_def)

lemma predict_no_output:
  assumes "dict_get (models reg) mid = Some d" and "dict_get (sessions reg) mid = Some s"
    and "model_type d = ''onnx''" and "s x = Inr []"
  shows "predict reg mid x el now = (Inl (IndexError ''list index out of range''), reg)"
  using assms by (simp add: predict_def)

lemma predict_empty_batch:
  assumes "dict_get (models reg) mid = Some d" and "dict_get (sessions reg) mid = Some s"
    and "model_type d = ''onnx''" and "s x = Inr ([] # os)"
  shows "predict reg mid x el now = (Inl (IndexError ''index 0 is out of bounds''), reg)"
  using assms by (simp add: predict_def)

lemma predict_unsupported_type:
  assumes "dict_get (models reg) mid = Some d" and "dict_get (sessions reg) mid = Some s"
    and "model_type d \<noteq> ''onnx''"
  shows "predict reg mid x el now =
           (Inl (RuntimeError (''Unsupported model type: '' @ model_type d)), reg)"
  using assms by (simp add: predict_def)

lemma round_half_even_near: "\<bar>of_int (round_half_even y) - y\<bar> \<le> 1 / 2"
  unfolding round_half_even_def Let_def by (simp; linarith)

lemma py_round1_near: "\<bar>py_round1 x - x\<bar> \<le> 1 / 20"
proof -
  have "\<bar>of_int (round_half_even (x * 10)) - x * 10\<bar> \<le> 1 / 2"
    by (rule round_half_even_near)
  then show ?thesis unfolding py_round1_def by (simp add: field_simps abs_le_iff)
qed

text \<open>
  Claim C7.  For a registered model id whose inference count is not negative (the
  registry's invariant), \<open>predict\<close> on success stores the count incremented by one and
  the running mean \<open>(old_avg * (n - 1) + elapsed) / n\<close>, \<open>n\<close> the new count; whenever
  it raises, it leaves the whole registry, so both counters, as it was.  Every failure
  makes it raise: without a loaded session for the id it raises \<open>RuntimeError\<close> (the
  source's exception for an inference error) saying that the model is not loaded; when
  the session raises, \<open>predict\<close> raises the same exception; when the session returns no
  output, or an empty first output, it raises \<open>IndexError\<close>; for a model type other than
  \<open>onnx\<close> it raises \<open>RuntimeError\<close>; each time with the registry unchanged.  With a
  session of an \<open>onnx\<close> model that returns an output it succeeds with the first batch
  item.
\<close>

theorem predict_counters:
  assumes "dict_get (models reg) mid = Some d" and "0 \<le> total_inferences d"
  shows "(\<forall>result reg'. predict reg mid x elapsed_ms now = (Inr result, reg') \<longrightarrow>
            (\<exists>d'. dict_get (models reg') mid = Some d'
               \<and> total_inferences d' = total_inferences d + 1
               \<and> avg_latency_ms d' =
                   (avg_latency_ms d * of_int (total_inferences d' - 1) + elapsed_ms)
                   / of_int (total_inferences d')))
       \<and> (\<forall>e reg'. predict reg mid x elapsed_ms now = (Inl e, reg') \<longrightarrow> reg' = reg)
       \<and> (dict_get (sessions reg) mid = None \<longrightarrow>
            predict reg mid x elapsed_ms now =
              (Inl (RuntimeError (''Model '' @ mid @ '' is not loaded'')), reg))
       \<and> (\<forall>s r rs os. dict_get (sessions reg) mid = Some s \<and> model_type d = ''onnx''
              \<and> s x = Inr ((r # rs) # os) \<longrightarrow>
            fst (predict reg mid x elapsed_ms now) = Inr r)
       \<and> (\<forall>s e. dict_get (sessions reg) mid = Some s \<and> model_type d = ''onnx''
              \<and> s x = Inl e \<longrightarrow>
            predict reg mid x elapsed_ms now = (Inl e, reg))
       \<and> (\<forall>s. dict_get (sessions reg) mid = Some s \<and> model_type d = ''onnx''
              \<and> s x = Inr [] \<longrightarrow>
            predict reg mid x elapsed_ms now = (Inl (IndexError ''list index out of range''), reg))
       \<and> (\<forall>s os. dict_get (sessions reg) mid = Some s \<and> model_type d = ''onnx''
              \<and> s x = Inr ([] # os) \<longrightarrow>
            predict reg mid x elapsed_ms now = (Inl (IndexError ''index 0 is out of bounds''), reg))
       \<and> (\<forall>s. dict_get (sessions reg) mid = Some s \<and> model_type d \<noteq> ''onnx'' \<longrightarrow>
            predict reg mid x elapsed_ms now =
              (Inl (RuntimeError (''Unsupported model type: '' @ model_type d)), reg))"
proof (intro conjI allI impI)
  fix result reg'
  assume "predict reg mid x elapsed_ms now = (Inr result, reg')"
  with assms(1) show "\<exists>d'. dict_get (models reg') mid = Some d'
               \<and> total_inferences d' = total_inferences d + 1
               \<and> avg_latency_ms d' =
                   (avg_latency_ms d * of_int (total_inferences d' - 1) + elapsed_ms)
                   / of_int (total_inferences d')"
    by (rule predict_success_counters)
next
  fix e reg'
  assume "predict reg mid x elapsed_ms now = (Inl e, reg')"
  moreover have "\<And>d'. dict_get (models reg) mid = Some d' \<Longrightarrow> 0 \<le> total_inferences d'"
    using assms by simp
  ultimately show "reg' = reg" by (rule predict_failure_keeps_registry [rotated])
next
  assume "dict_get (sessions reg) mid = None"
  then show "predict reg mid x elapsed_ms now =
              (Inl (RuntimeError (''Model '' @ mid @ '' is not loaded'')), reg)"
    by (rule predict_not_loaded)
next
  fix s r rs os
  assume "dict_get (sessions reg) mid = Some s \<and> model_type d = ''onnx''
              \<and> s x = Inr ((r # rs) # os)"
  with assms show "fst (predict reg mid x elapsed_ms now) = Inr r"
    by (auto intro: predict_success_result)
next
  fix s e
  assume a: "dict_get (sessions reg) mid = Some s \<and> model_type d = ''onnx'' \<and> s x = Inl e"
  show "predict reg mid x elapsed_ms now = (Inl e, reg)"
    by (rule predict_session_raises [OF assms(1) a [THEN conjunct1]
          a [THEN conjunct2, THEN conjunct1] a [THEN conjunct2, THEN conjunct2]])
next
  fix s
  assume a: "dict_get (sessions reg) mid = Some s \<and> model_type d = ''onnx'' \<and> s x = Inr []"
  show "predict reg mid x elapsed_ms now =
      (Inl (IndexError ''list index out of range''), reg)"
    by (rule predict_no_output [OF assms(1) a [THEN conjunct1]
          a [THEN conjunct2, THEN conjunct1] a [THEN conjunct2, THEN conjunct2]])
next
  fix s os
  assume a: "dict_get (sessions reg) mid = Some s \<and> model_type d = ''onnx'' \<and> s x = Inr ([] # os)"
  show "predict reg mid x elapsed_ms now =
      (Inl (IndexError ''index 0 is out of bounds''), reg)"
    by (rule predict_empty_batch [OF assms(1) a [THEN conjunct1]
          a [THEN conjunct2, THEN conjunct1] a [THEN conjunct2, THEN conjunct2]])
next
  fix s
  assume a: "dict_get (sessions reg) mid = Some s \<and> model_type d \<noteq> ''onnx''"
  show "predict reg mid x elapsed_ms now =
      (Inl (RuntimeError (''Unsupported model type: '' @ model_type d)), reg)"
    by (rule predict_unsupported_type [OF assms(1) a [THEN conjunct1] a [THEN conjunct2]])
qed

text \<open>
  Claim C10.  For a model id that is not in the registry, \<open>health_check\<close> returns the
  record \<open>{"model_id": id, "status": "unknown"}\<close>; the function has no raising path.  For
  a registered id the record holds the model's \<open>loaded\<close> and \<open>enabled\<close> flags, its
  inference count and its average latency, the latter rounded to one decimal place, so
  within 0.05 of the stored average.
\<close>

theorem health_check_record:
  "(dict_get (models reg) mid = None \<longrightarrow>
      health_check reg mid = [(''model_id'', PyStr mid), (''status'', PyStr ''unknown'')])
   \<and> (\<forall>d. dict_get (models reg) mid = Some d \<longrightarrow>
         dict_get (health_check reg mid) ''model_id'' = Some (PyStr mid)
       \<and> dict_get (health_check reg mid) ''loaded'' = Some (PyBool (loaded d))
       \<and> dict_get (health_check reg mid) ''enabled'' = Some (PyBool (enabled d))
       \<and> dict_get (health_check reg mid) ''total_inferences'' = Some (PyInt (total_inferences d))
       \<and> dict_get (health_check reg mid) ''avg_latency_ms'' =
           Some (PyFloat (py_round1 (avg_latency_ms d)))
       \<and> \<bar>py_round1 (avg_latency_ms d) - avg_latency_ms d\<bar> \<le> 1 / 20)"
proof -
  have near: "\<bar>py_round1 (avg_latency_ms d) - avg_latency_ms d\<bar> * 20 \<le> 1" for d
    using py_round1_near [of "avg_latency_ms d"] by simp
  show ?thesis
    by (simp add: health_check_def dict_get_def near)
qed


theorem predict_counters_witness:
  "fst (predict yahoo_registry ''yahoo_open_nsfw'' [] 20 5) = Inr [0.9, 0.1]
   \<and> (\<exists>d'. dict_get (models (snd (predict yahoo_registry ''yahoo_open_nsfw'' [] 20 5)))
                ''yahoo_open_nsfw'' = Some d'
           \<and> total_inferences d' = 2 \<and> avg_latency_ms d' = 15)
   \<and> predict (yahoo_registry\<lparr>sessions := []\<rparr>) ''yahoo_open_nsfw'' [] 20 5 =
       (Inl (RuntimeError ''Model yahoo_open_nsfw is not loaded''), yahoo_registry\<lparr>sessions := []\<rparr>)
   \<and> predict (yahoo_registry\<lparr>sessions :=
          [(''yahoo_open_nsfw'', \<lambda>t. Inl (ExternalError ''inference failed''))]\<rparr>)
        ''yahoo_open_nsfw'' [] 20 5 =
       (Inl (ExternalError ''inference failed''),
        yahoo_registry\<lparr>sessions :=
          [(''yahoo_open_nsfw'', \<lambda>t. Inl (ExternalError ''inference failed''))]\<rparr>)"
proof -
  have h1: "dict_get (models yahoo_registry) ''yahoo_open_nsfw'' = Some yahoo_descriptor"
    by (simp add: yahoo_registry_def dict_get_def)
  have h1': "dict_get (models (yahoo_registry\<lparr>sessions := []\<rparr>)) ''yahoo_open_nsfw'' = Some yahoo_descriptor"
    by (simp add: yahoo_registry_def dict_get_def)
  have h2: "0 \<le> total_inferences yahoo_descriptor"
    by (simp add: yahoo_descriptor_def)
  have s: "dict_get (sessions yahoo_registry) ''yahoo_open_nsfw'' = Some (\<lambda>t. Inr [[[0.9, 0.1]]])"
    by (simp add: yahoo_registry_def dict_get_def)
  have ty: "model_type yahoo_descriptor = ''onnx''"
    by (simp add: yahoo_descriptor_def)
  note main = predict_counters [OF h1 h2, of "[]" 20 5]
  note unloaded = predict_counters [OF h1' h2, of "[]" 20 5]
  from main s ty have r: "fst (predict yahoo_registry ''yahoo_open_nsfw'' [] 20 5) = Inr [0.9, 0.1]"
    by blast
  then have "predict yahoo_registry ''yahoo_open_nsfw'' [] 20 5 =
      (Inr [0.9, 0.1], snd (predict yahoo_registry ''yahoo_open_nsfw'' [] 20 5))"
    by (metis prod.collapse)
  with main obtain d' where
    "dict_get (models (snd (predict yahoo_registry ''yahoo_open_nsfw'' [] 20 5))) ''yahoo_open_nsfw'' = Some d'"
    "total_inferences d' = total_inferences yahoo_descriptor + 1"
    "avg_latency_ms d' =
       (avg_latency_ms yahoo_descriptor * of_int (total_inferences d' - 1) + 20)
         / of_int (total_inferences d')"
    by blast
  then have "\<exists>d'. dict_get (models (snd (predict yahoo_registry ''yahoo_open_nsfw'' [] 20 5)))
                ''yahoo_open_nsfw'' = Some d'
           \<and> total_inferences d' = 2 \<and> avg_latency_ms d' = 15"
    by (simp add: yahoo_descriptor_def)
  moreover from unloaded have "predict (yahoo_registry\<lparr>sessions := []\<rparr>) ''yahoo_open_nsfw'' [] 20 5 =
       (Inl (RuntimeError ''Model yahoo_open_nsfw is not loaded''), yahoo_registry\<lparr>sessions := []\<rparr>)"
    by (simp add: dict_get_def)
  moreover have "predict (yahoo_registry\<lparr>sessions :=
          [(''yahoo_open_nsfw'', \<lambda>t. Inl (ExternalError ''inference failed''))]\<rparr>)
        ''yahoo_open_nsfw'' [] 20 5 =
       (Inl (ExternalError ''inference failed''),
        yahoo_registry\<lparr>sessions :=
          [(''yahoo_open_nsfw'', \<lambda>t. Inl (ExternalError ''inference failed''))]\<rparr>)"
  proof -
    have h1'': "dict_get (models (yahoo_registry\<lparr>sessions :=
          [(''yahoo_open_nsfw'', \<lambda>t. Inl (ExternalError ''inference failed''))]\<rparr>))
        ''yahoo_open_nsfw'' = Some yahoo_descriptor"
      by (simp add: yahoo_registry_def dict_get_def)
    have s'': "dict_get (sessions (yahoo_registry\<lparr>sessions :=
          [(''yahoo_open_nsfw'', \<lambda>t. Inl (ExternalError ''inference failed''))]\<rparr>))
        ''yahoo_open_nsfw'' = Some (\<lambda>t. Inl (ExternalError ''inference failed''))"
      by (simp add: dict_get_def)
    from predict_counters [OF h1'' h2, of "[]" 20 5] s'' ty show ?thesis
      by blast
  qed
  ultimately show ?thesis using r by blast
qed

theorem health_check_record_witness:
  "health_check (register_builtins empty_registry) ''no_such_model'' =
     [(''model_id'', PyStr ''no_such_model''), (''status'', PyStr ''unknown'')]
   \<and> dict_get (health_check yahoo_registry ''yahoo_open_nsfw'') ''loaded'' = Some (PyBool True)
   \<and> dict_get (health_check yahoo_registry ''yahoo_open_nsfw'') ''enabled'' = Some (PyBool True)
   \<and> dict_get (health_check yahoo_registry ''yahoo_open_nsfw'') ''total_inferences'' = Some (PyInt 1)
   \<and> dict_get (health_check yahoo_registry ''yahoo_open_nsfw'') ''avg_latency_ms'' = Some (PyFloat 10)"
proof -
  have a: "dict_get (models (register_builtins empty_registry)) ''no_such_model'' = None"
    by (simp add: register_builtins_def BUILTIN_MODELS_def register_def empty_registry_def dict_get_def)
  have b: "dict_get (models yahoo_registry) ''yahoo_open_nsfw'' = Some yahoo_descriptor"
    by (simp add: yahoo_registry_def dict_get_def)
  have c: "py_round1 10 = 10"
    by (simp add: py_round1_def round_half_even_def)
  from health_check_record [of "register_builtins empty_registry" "''no_such_model''"] a
    health_check_record [of yahoo_registry "''yahoo_open_nsfw''"] b c
  show ?thesis
    by (simp add: yahoo_descriptor_def)
qed

section \<open>Properties of the ensemble classifier\<close>

lemma map_of_fold_dict_set:
  "map_of (fold (\<lambda>k d. dict_set d k (f k)) ks d0) c =
     (if c \<in> set ks then Some (f c) else map_of d0 c)"
  by (induction ks arbitrary: d0) (auto simp: map_of_dict_set)

lemma set_all_categories: "set (all_categories results) = reported_categories results"
  by (auto simp: all_categories_def reported_categories_def dict_keys_def)

lemma weighted_sum_of_code:
  "sum_list (map (\<lambda>r. dict_get_default (normalized_scores r) cat 0 * result_weight r) results) =
     weighted_sum_of results cat"
  unfolding weighted_sum_of_def
  by (rule arg_cong [where f = sum_list], rule map_cong)
     (auto simp: dict_get_default_def dict_get_def split: option.splits)

lemma weighted_average_lookup:
  "dict_get (weighted_average results) cat =
     (if cat \<in> reported_categories results
      then Some (if total_weight_of results > 0
                 then weighted_sum_of results cat / total_weight_of results else 0)
      else None)"
  unfolding weighted_average_def Let_def dict_get_def weighted_sum_of_code
  by (simp add: map_of_fold_dict_set set_all_categories total_weight_of_def)

text \<open>
  Claim C1, as the code has it.  The weighted average holds exactly the categories some
  model reports in its normalized output.  When the weights of the models sum to more
  than 0, the score of such a category is \<open>\<Sigma>(normalized_score_i * weight_i) / \<Sigma>(weight_i)\<close>,
  the sums running over all the models: a model that does not report the category adds 0
  to the numerator and its weight to the denominator.  When the weights do not sum to
  more than 0, the score is 0.  The witness is the case of two models of weights 0.6 and
  0.4, the first reporting \<open>explicit = 0.8\<close>, the second not reporting it: the score is 0.48.
\<close>

theorem weighted_average_score:
  "dict_get (weighted_average results) cat =
     (if cat \<in> reported_categories results
      then Some (if total_weight_of results > 0
                 then weighted_sum_of results cat / total_weight_of results else 0)
      else None)
   \<and> (total_weight_of results > 0 \<and> cat \<in> reported_categories results \<longrightarrow>
        dict_get (weighted_average results) cat = quotient_score results cat)"
  by (simp add: weighted_average_lookup quotient_score_def)

theorem weighted_average_score_witness:
  "dict_get (weighted_average two_model_results) ''explicit'' = Some 0.48
   \<and> total_weight_of two_model_results = 1
   \<and> weighted_sum_of two_model_results ''explicit'' = 0.8 * 0.6 + 0 * 0.4"
proof -
  have r: "''explicit'' \<in> reported_categories two_model_results"
    by (simp add: reported_categories_def two_model_results_def)
  have t: "total_weight_of two_model_results = 1"
    by (simp add: total_weight_of_def two_model_results_def)
  have w: "weighted_sum_of two_model_results ''explicit'' = 0.8 * 0.6 + 0 * 0.4"
    by (simp add: weighted_sum_of_def two_model_results_def dict_get_def)
  from weighted_average_score [of two_model_results "''explicit''"] r t w
  show ?thesis by simp
qed

text \<open>
  The formula alone does not describe every list of results: for a single model of weight
  0 that reports \<open>explicit = 0.8\<close> the quotient has no value, and the code stores 0.
\<close>

theorem weighted_average_zero_weight_counterexample:
  "dict_get (weighted_average zero_weight_results) ''explicit'' = Some 0
   \<and> quotient_score zero_weight_results ''explicit'' = None
   \<and> dict_get (weighted_average zero_weight_results) ''explicit''
       \<noteq> quotient_score zero_weight_results ''explicit''"
proof -
  have r: "''explicit'' \<in> reported_categories zero_weight_results"
    by (simp add: reported_categories_def zero_weight_results_def)
  have t: "total_weight_of zero_weight_results = 0"
    by (simp add: total_weight_of_def zero_weight_results_def)
  show ?thesis
    by (simp add: weighted_average_lookup quotient_score_def r t)
qed

lemma counts_ok_lookup:
  assumes "counts_ok reg" and "dict_get (models reg) mid = Some d"
  shows "0 \<le> total_inferences d"
proof -
  from assms(2) have "(mid, d) \<in> set (models reg)"
    by (simp add: dict_get_def map_of_SomeD)
  then have "d \<in> set (dict_values (models reg))"
    by (force simp: dict_values_def)
  with assms(1) show ?thesis
    by (simp add: counts_ok_def list_all_iff)
qed

text \<open>
  The invariant on the inference counts holds for the registry of the built-in catalog
  and is kept by \<open>register\<close> (for a descriptor that satisfies it) and by \<open>predict\<close>.
\<close>

lemma dict_values_dict_set:
  "set (dict_values (dict_set d k v)) \<subseteq> insert v (set (dict_values d))"
  unfolding dict_values_def by (induction d) (force split: if_splits)+

lemma counts_ok_store:
  assumes "counts_ok reg" and "0 \<le> total_inferences d"
  shows "counts_ok (reg\<lparr>models := dict_set (models reg) mid d\<rparr>)"
  using assms dict_values_dict_set [of "models reg" mid d]
  unfolding counts_ok_def list_all_iff by auto

lemma counts_ok_register:
  "counts_ok reg \<Longrightarrow> 0 \<le> total_inferences d \<Longrightarrow> counts_ok (register reg d)"
  unfolding register_def by (rule counts_ok_store)

lemma counts_ok_register_builtins: "counts_ok (register_builtins empty_registry)"
proof -
  have "\<forall>d\<in>set ds. 0 \<le> total_inferences d \<Longrightarrow> counts_ok reg \<Longrightarrow>
      counts_ok (fold (\<lambda>descriptor r. register r descriptor) ds reg)" for ds reg
    by (induction ds arbitrary: reg) (simp_all add: counts_ok_register)
  moreover have "\<forall>d\<in>set BUILTIN_MODELS. 0 \<le> total_inferences d"
    by (simp add: BUILTIN_MODELS_def)
  moreover have "counts_ok empty_registry"
    by (simp add: counts_ok_def empty_registry_def dict_values_def)
  ultimately show ?thesis
    unfolding register_builtins_def by blast
qed

lemma counts_ok_predict:
  assumes "counts_ok reg"
  shows "counts_ok (snd (predict reg mid x elapsed_ms now))"
proof (cases "dict_get (sessions reg) mid")
  case None
  with assms show ?thesis by (simp add: predict_def)
next
  case (Some s)
  show ?thesis
  proof (cases "dict_get (models reg) mid")
    case None
    with Some assms show ?thesis by (simp add: predict_def)
  next
    case d: (Some d)
    have nonneg: "0 \<le> total_inferences d"
      using assms d by (rule counts_ok_lookup)
    then have "counts_ok (reg\<lparr>models := dict_set (models reg) mid d'\<rparr>)"
      if "total_inferences d' = total_inferences d + 1" for d'
      using that assms by (simp add: counts_ok_store)
    with Some d assms show ?thesis
      by (simp add: predict_def Let_def split: sum.splits list.splits)
  qed
qed

lemma failed_invocation_step:
  assumes ok: "counts_ok reg" and ld: "loaded d" and f: "invocation_fails env reg content d"
  shows "run_models env content (d # rest) reg acc = run_models env content rest reg acc"
proof (cases "preprocess (decode_image env) content (input_size d) (preprocessing d)")
  case (Inl e)
  with ld show ?thesis by simp
next
  case (Inr t)
  obtain out reg' where p: "predict reg (model_id d) t (elapsed_ms_of env (model_id d))
      (utcnow_of env (model_id d)) = (out, reg')"
    by (cases "predict reg (model_id d) t (elapsed_ms_of env (model_id d)) (utcnow_of env (model_id d))")
  with f Inr obtain e where out: "out = Inl e"
    by (cases out) (auto simp: invocation_fails_def)
  have "reg' = reg"
    using predict_failure_keeps_registry [OF counts_ok_lookup [OF ok] p [unfolded out]] .
  with ld Inr p out show ?thesis by simp
qed

lemma run_models_all_fail:
  assumes "counts_ok reg"
    and "\<forall>d\<in>set ms. loaded d \<longrightarrow> invocation_fails env reg content d"
  shows "run_models env content ms reg acc = (acc, reg)"
  using assms(2)
proof (induction ms)
  case Nil
  then show ?case by simp
next
  case (Cons d ms)
  show ?case
  proof (cases "loaded d")
    case True
    with Cons.prems have "invocation_fails env reg content d" by simp
    from failed_invocation_step [OF assms(1) True this] Cons show ?thesis by simp
  next
    case False
    with Cons show ?thesis by simp
  qed
qed

text \<open>
  Claim C4.  With no enabled model for the task, \<open>classify_ensemble\<close> returns empty
  \<open>final_scores\<close> and \<open>agreement_score = 1\<close>.  With at least one enabled model, when every
  invocation of a loaded model fails (so there is no successful result), it returns empty
  \<open>final_scores\<close> and \<open>agreement_score = 0\<close>.  The second part is stated for a registry
  whose inference counts are not negative, the registry's invariant.
\<close>

theorem classify_ensemble_empty_paths:
  "(get_models_for_task reg tsk = [] \<longrightarrow>
      final_scores (fst (classify_ensemble env reg content tsk method)) = []
      \<and> agreement_score (fst (classify_ensemble env reg content tsk method)) = 1)
   \<and> (counts_ok reg \<and> get_models_for_task reg tsk \<noteq> []
        \<and> (\<forall>d\<in>set (get_models_for_task reg tsk). loaded d \<longrightarrow> invocation_fails env reg content d) \<longrightarrow>
      final_scores (fst (classify_ensemble env reg content tsk method)) = []
      \<and> agreement_score (fst (classify_ensemble env reg content tsk method)) = 0)"
proof (intro conjI impI)
  assume "get_models_for_task reg tsk = []"
  then show "final_scores (fst (classify_ensemble env reg content tsk method)) = []"
    and "agreement_score (fst (classify_ensemble env reg content tsk method)) = 1"
    by (simp_all add: classify_ensemble_def)
next
  assume a: "counts_ok reg \<and> get_models_for_task reg tsk \<noteq> []
        \<and> (\<forall>d\<in>set (get_models_for_task reg tsk). loaded d \<longrightarrow> invocation_fails env reg content d)"
  then have "run_models env content (get_models_for_task reg tsk) reg [] = ([], reg)"
    by (simp add: run_models_all_fail)
  with a show "final_scores (fst (classify_ensemble env reg content tsk method)) = []"
    and "agreement_score (fst (classify_ensemble env reg content tsk method)) = 0"
    by (simp_all add: classify_ensemble_def)
qed

theorem classify_ensemble_empty_paths_witness:
  "final_scores (fst (classify_ensemble broken_image_env yahoo_registry [] ''nsfl_detection'' ''weighted_average'')) = []
   \<and> agreement_score (fst (classify_ensemble broken_image_env yahoo_registry [] ''nsfl_detection'' ''weighted_average'')) = 1
   \<and> final_scores (fst (classify_ensemble broken_image_env yahoo_registry [] ''nsfw_detection'' ''weighted_average'')) = []
   \<and> agreement_score (fst (classify_ensemble broken_image_env yahoo_registry [] ''nsfw_detection'' ''weighted_average'')) = 0"
proof -
  have none: "get_models_for_task yahoo_registry ''nsfl_detection'' = []"
    by (simp add: get_models_for_task_def yahoo_registry_def yahoo_descriptor_def dict_values_def)
  have one: "get_models_for_task yahoo_registry ''nsfw_detection'' = [yahoo_descriptor]"
    by (simp add: get_models_for_task_def yahoo_registry_def yahoo_descriptor_def dict_values_def)
  have ok: "counts_ok yahoo_registry"
    by (simp add: counts_ok_def yahoo_registry_def yahoo_descriptor_def dict_values_def)
  have fails: "invocation_fails broken_image_env yahoo_registry [] yahoo_descriptor"
    by (simp add: invocation_fails_def preprocess_def broken_image_env_def)
  from classify_ensemble_empty_paths [of yahoo_registry "''nsfl_detection''" broken_image_env "[]" "''weighted_average''"]
    classify_ensemble_empty_paths [of yahoo_registry "''nsfw_detection''" broken_image_env "[]" "''weighted_average''"]
    none one ok fails
  show ?thesis by simp
qed

section \<open>Properties of the hashing service\<close>

text \<open>
  Claim C5.  With the three algorithms enabled in the settings, \<open>compute_all_hashes\<close>
  always returns a result: each hash field holds its algorithm's value when the algorithm
  returned one and is absent when it raised, whatever the other algorithms did, and
  \<open>errors\<close> holds, in the order pHash, PDQ, PhotoDNA, one entry \<open>"<name>: <message>"\<close>
  for each algorithm that raised and nothing else.  PhotoDNA runs through its client:
  where the service has none (the constructor's default) it is skipped, its field stays
  absent and it adds no entry.  The witness has pHash alone raising (PDQ and PhotoDNA are
  filled, \<open>errors\<close> is the single entry tagged \<open>phash\<close>), all three raising (every
  field absent, three entries), and pHash and PDQ raising without a PhotoDNA client
  (every field absent, two entries).
\<close>

theorem compute_all_hashes_tolerant:
  assumes "enable_phash settings" and "enable_pdq settings" and "enable_photodna settings"
  shows "phash (compute_all_hashes settings algs content sha now) =
           hash_value_of (compute_phash algs content)
       \<and> pdq_hash (compute_all_hashes settings algs content sha now) =
           map_option fst (hash_value_of (compute_pdq algs content))
       \<and> pdq_quality (compute_all_hashes settings algs content sha now) =
           map_option snd (hash_value_of (compute_pdq algs content))
       \<and> photodna_hash (compute_all_hashes settings algs content sha now) =
           (case photodna_client algs of
              None \<Rightarrow> None
            | Some photodna \<Rightarrow> hash_value_of (photodna content))
       \<and> errors (compute_all_hashes settings algs content sha now) =
           error_entry ''phash'' (compute_phash algs content)
           @ error_entry ''pdq'' (compute_pdq algs content)
           @ (case photodna_client algs of
                None \<Rightarrow> []
              | Some photodna \<Rightarrow> error_entry ''photodna'' (photodna content))
       \<and> sha256 (compute_all_hashes settings algs content sha now) = sha"
  using assms
  by (simp add: compute_all_hashes_def Let_def hash_value_of_def error_entry_def
      split: sum.splits prod.splits option.splits)

theorem compute_all_hashes_tolerant_witness:
  "phash (compute_all_hashes all_enabled phash_broken [7, 7] ''ab12'' 0) = None
   \<and> pdq_hash (compute_all_hashes all_enabled phash_broken [7, 7] ''ab12'' 0) = Some ''f0f0''
   \<and> pdq_quality (compute_all_hashes all_enabled phash_broken [7, 7] ''ab12'' 0) = Some 87
   \<and> photodna_hash (compute_all_hashes all_enabled phash_broken [7, 7] ''ab12'' 0) = Some [1, 2, 3]
   \<and> errors (compute_all_hashes all_enabled phash_broken [7, 7] ''ab12'' 0) =
       [''phash: cannot identify image file'']
   \<and> phash (compute_all_hashes all_enabled all_broken [7, 7] ''ab12'' 0) = None
   \<and> pdq_hash (compute_all_hashes all_enabled all_broken [7, 7] ''ab12'' 0) = None
   \<and> pdq_quality (compute_all_hashes all_enabled all_broken [7, 7] ''ab12'' 0) = None
   \<and> photodna_hash (compute_all_hashes all_enabled all_broken [7, 7] ''ab12'' 0) = None
   \<and> errors (compute_all_hashes all_enabled all_broken [7, 7] ''ab12'' 0) =
       [''phash: cannot identify image file'', ''pdq: cannot identify image file'',
        ''photodna: service unavailable'']
   \<and> phash (compute_all_hashes all_enabled all_broken_no_client [7, 7] ''ab12'' 0) = None
   \<and> pdq_hash (compute_all_hashes all_enabled all_broken_no_client [7, 7] ''ab12'' 0) = None
   \<and> pdq_quality (compute_all_hashes all_enabled all_broken_no_client [7, 7] ''ab12'' 0) = None
   \<and> photodna_hash (compute_all_hashes all_enabled all_broken_no_client [7, 7] ''ab12'' 0) = None
   \<and> errors (compute_all_hashes all_enabled all_broken_no_client [7, 7] ''ab12'' 0) =
       [''phash: cannot identify image file'', ''pdq: cannot identify image file'']"
proof -
  have e: "enable_phash all_enabled" "enable_pdq all_enabled" "enable_photodna all_enabled"
    by (simp_all add: all_enabled_def)
  note one = compute_all_hashes_tolerant [OF e, of phash_broken "[7, 7]" "''ab12''" 0]
  note all = compute_all_hashes_tolerant [OF e, of all_broken "[7, 7]" "''ab12''" 0]
  note bare = compute_all_hashes_tolerant [OF e, of all_broken_no_client "[7, 7]" "''ab12''" 0]
  have o1: "compute_phash phash_broken [7, 7] = Inl (ExternalError ''cannot identify image file'')"
    "compute_pdq phash_broken [7, 7] = Inr (''f0f0'', 87)"
    "photodna_client phash_broken = Some (\<lambda>content. Inr [1, 2, 3])"
    by (simp_all add: phash_broken_def)
  have o2: "compute_phash all_broken [7, 7] = Inl (ExternalError ''cannot identify image file'')"
    "compute_pdq all_broken [7, 7] = Inl (ExternalError ''cannot identify image file'')"
    "photodna_client all_broken = Some (\<lambda>content. Inl (ExternalError ''service unavailable''))"
    by (simp_all add: all_broken_def)
  have o3: "compute_phash all_broken_no_client [7, 7] = Inl (ExternalError ''cannot identify image file'')"
    "compute_pdq all_broken_no_client [7, 7] = Inl (ExternalError ''cannot identify image file'')"
    "photodna_client all_broken_no_client = None"
    by (simp_all add: all_broken_no_client_def)
  from one all bare show ?thesis
    unfolding o1 o2 o3 by (simp add: hash_value_of_def error_entry_def)
qed

lemma search_known_databases_matches:
  assumes "search_known_databases settings hash_db hash_result = Inr ms"
  shows "\<exists>ps qs ds.
           (if truthy (phash hash_result)
            then search_phash hash_db (the (phash hash_result)) (hamming_distance_threshold settings)
            else Inr []) = Inr ps
         \<and> (if truthy (pdq_hash hash_result)
            then search_pdq hash_db (the (pdq_hash hash_result)) (hamming_distance_threshold settings)
            else Inr []) = Inr qs
         \<and> (if truthy (photodna_hash hash_result)
            then search_photodna hash_db (the (photodna_hash hash_result))
                   (hamming_distance_threshold settings)
            else Inr []) = Inr ds
         \<and> ms = map (phash_match hash_result) ps @ map (pdq_match hash_result) qs
                @ map (photodna_match hash_result) ds"
  using assms unfolding search_known_databases_def
  by (auto split: sum.splits)

text \<open>
  Claim C9, as the code has it.  Every match \<open>search_known_databases\<close> returns for pHash
  has confidence \<open>1 - distance / 64\<close>, every match for PDQ has confidence
  \<open>1 - distance / 256\<close>, and every match for PhotoDNA comes from an entry of the hash
  index and has that entry's confidence when the entry carries one, and 0.9 when it
  carries none.
\<close>

theorem search_known_databases_confidence:
  assumes "search_known_databases settings hash_db hash_result = Inr ms"
  shows "\<forall>m\<in>set ms.
           (hash_type m = ''phash'' \<longrightarrow> match_confidence m = 1 - real_of_int (match_distance m) / 64)
         \<and> (hash_type m = ''pdq'' \<longrightarrow> match_confidence m = 1 - real_of_int (match_distance m) / 256)
         \<and> (hash_type m = ''photodna'' \<longrightarrow>
              (\<exists>es e. search_photodna hash_db (the (photodna_hash hash_result))
                         (hamming_distance_threshold settings) = Inr es
                 \<and> e \<in> set es
                 \<and> match_distance m = entry_distance e
                 \<and> match_confidence m = (case entry_confidence e of None \<Rightarrow> 0.9 | Some c \<Rightarrow> c)))"
proof -
  from search_known_databases_matches [OF assms] obtain ps qs ds where
    d: "(if truthy (photodna_hash hash_result)
            then search_photodna hash_db (the (photodna_hash hash_result))
                   (hamming_distance_threshold settings)
            else Inr []) = Inr ds"
    and ms: "ms = map (phash_match hash_result) ps @ map (pdq_match hash_result) qs
                @ map (photodna_match hash_result) ds"
    by blast
  show ?thesis
  proof
    fix m assume "m \<in> set ms"
    with ms consider
        (p) e where "e \<in> set ps" "m = phash_match hash_result e"
      | (q) e where "e \<in> set qs" "m = pdq_match hash_result e"
      | (d) e where "e \<in> set ds" "m = photodna_match hash_result e"
      by auto
    then show "(hash_type m = ''phash'' \<longrightarrow> match_confidence m = 1 - real_of_int (match_distance m) / 64)
         \<and> (hash_type m = ''pdq'' \<longrightarrow> match_confidence m = 1 - real_of_int (match_distance m) / 256)
         \<and> (hash_type m = ''photodna'' \<longrightarrow>
              (\<exists>es e. search_photodna hash_db (the (photodna_hash hash_result))
                         (hamming_distance_threshold settings) = Inr es
                 \<and> e \<in> set es
                 \<and> match_distance m = entry_distance e
                 \<and> match_confidence m = (case entry_confidence e of None \<Rightarrow> 0.9 | Some c \<Rightarrow> c)))"
    proof cases
      case p
      then show ?thesis by (simp add: phash_match_def)
    next
      case q
      then show ?thesis by (simp add: pdq_match_def)
    next
      case d
      from d(1) \<open>(if truthy (photodna_hash hash_result)
            then search_photodna hash_db (the (photodna_hash hash_result))
                   (hamming_distance_threshold settings)
            else Inr []) = Inr ds\<close>
      have "search_photodna hash_db (the (photodna_hash hash_result))
                   (hamming_distance_threshold settings) = Inr ds"
        by (auto split: if_splits)
      with d show ?thesis
        by (auto simp: photodna_match_def)
    qed
  qed
qed

theorem search_known_databases_confidence_witness:
  "map hash_type (projr (search_known_databases all_enabled bare_index all_hashes_result)) =
     [''phash'', ''pdq'', ''photodna'']
   \<and> map match_confidence (projr (search_known_databases all_enabled bare_index all_hashes_result)) =
     [1 - 3 / 64, 1 - 3 / 256, 0.9]"
proof -
  have r: "search_known_databases all_enabled bare_index all_hashes_result =
      Inr [phash_match all_hashes_result bare_entry, pdq_match all_hashes_result bare_entry,
           photodna_match all_hashes_result bare_entry]"
    by (simp add: search_known_databases_def truthy_def all_hashes_result_def bare_index_def)
  from search_known_databases_confidence [OF r]
  have "match_confidence (phash_match all_hashes_result bare_entry) = 1 - 3 / 64"
    and "match_confidence (pdq_match all_hashes_result bare_entry) = 1 - 3 / 256"
    by (simp_all add: phash_match_def pdq_match_def bare_entry_def)
  moreover have "match_confidence (photodna_match all_hashes_result bare_entry) = 0.9"
    by (simp add: photodna_match_def bare_entry_def)
  ultimately show ?thesis
    unfolding r by (simp add: phash_match_def pdq_match_def photodna_match_def)
qed

text \<open>
  A PhotoDNA match does not always carry a confidence of the hash index: for an entry
  without \<open>confidence\<close> the match has 0.9.
\<close>

theorem photodna_default_confidence_counterexample:
  "search_photodna bare_index [1, 2, 3] 10 = Inr [bare_entry]
   \<and> entry_confidence bare_entry = None
   \<and> map match_confidence (projr (search_known_databases all_enabled bare_index photodna_only_result))
       = [0.9]
   \<and> map (\<lambda>m. Some (match_confidence m))
         (projr (search_known_databases all_enabled bare_index photodna_only_result))
       \<noteq> map entry_confidence (projr (search_photodna bare_index [1, 2, 3] 10))"
  by (simp add: search_known_databases_def truthy_def photodna_only_result_def bare_index_def
      bare_entry_def photodna_match_def all_enabled_def)

subsection \<open>Hamming distance\<close>

lemma bit_nat_le: "bit (n::nat) i \<Longrightarrow> i \<le> n"
proof -
  assume b: "bit n i"
  have "2 ^ i \<le> n"
  proof (rule ccontr)
    assume "\<not> 2 ^ i \<le> n"
    then have "n div 2 ^ i = 0" by simp
    with b show False by (simp add: bit_iff_odd)
  qed
  moreover have "i < (2::nat) ^ i" by (rule less_exp)
  ultimately show ?thesis by (meson less_imp_le order_trans)
qed

lemma finite_bits_nat: "finite {i. bit (n::nat) i}"
proof (rule finite_subset)
  show "{i. bit n i} \<subseteq> {..n}" by (auto dest: bit_nat_le)
qed simp

lemma set_bit_count_rec:
  "set_bit_count n = (if odd n then 1 else 0) + set_bit_count (n div 2)"
proof -
  have split: "{i. bit n i} = (if odd n then {0} else {}) \<union> Suc ` {i. bit (n div 2) i}"
  proof (rule set_eqI)
    fix i
    show "i \<in> {i. bit n i} \<longleftrightarrow> i \<in> (if odd n then {0} else {}) \<union> Suc ` {i. bit (n div 2) i}"
      by (cases i) (auto simp: bit_0 bit_Suc)
  qed
  have "card ((if odd n then {0} else {}) \<union> Suc ` {i. bit (n div 2) i}) =
      card (if odd n then {0::nat} else {}) + card (Suc ` {i. bit (n div 2) i})"
    by (rule card_Un_disjoint) (auto simp: finite_bits_nat)
  also have "card (Suc ` {i. bit (n div 2) i}) = card {i. bit (n div 2) i}"
    by (rule card_image) simp
  finally show ?thesis
    unfolding set_bit_count_def split by simp
qed

lemma set_bit_count_0: "set_bit_count 0 = 0"
  by (simp add: set_bit_count_def)

lemma count_ones_bin_digits: "str_count (bin_digits n) CHR ''1'' = int (set_bit_count n)"
proof (induction n rule: bin_digits.induct)
  case (1 n)
  show ?case
  proof (cases "n < 2")
    case True
    then have d: "bin_digits n = [if n = 0 then CHR ''0'' else CHR ''1'']"
      using bin_digits.simps [of n] by simp
    from True have "n = 0 \<or> n = 1" by auto
    then show ?thesis
    proof
      assume "n = 0"
      then show ?thesis unfolding d by (simp add: str_count_def set_bit_count_0)
    next
      assume "n = 1"
      then show ?thesis
        unfolding d using set_bit_count_rec [of 1] by (simp add: str_count_def set_bit_count_0)
    qed
  next
    case False
    have "str_count (bin_digits n) CHR ''1'' =
        str_count (bin_digits (n div 2)) CHR ''1'' + (if even n then 0 else 1)"
      using False bin_digits.simps [of n] by (simp add: str_count_def)
    also have "\<dots> = int (set_bit_count (n div 2)) + (if even n then 0 else 1)"
      using "1.IH" [OF False] by simp
    also have "\<dots> = int (set_bit_count n)"
      by (subst (2) set_bit_count_rec) simp
    finally show ?thesis .
  qed
qed

lemma count_ones_py_bin:
  "0 \<le> x \<Longrightarrow> str_count (py_bin x) CHR ''1'' = int (set_bit_count (nat x))"
  using count_ones_bin_digits [of "nat x"] by (simp add: py_bin_def str_count_def)


lemma hex_digit_plain:
  assumes "hex_digit c \<noteq> None"
  shows "\<not> is_space c" and "c \<noteq> CHR ''+''" and "c \<noteq> CHR ''-''" and "c \<noteq> CHR ''_''"
    and "c \<noteq> CHR ''x''" and "c \<noteq> CHR ''X''"
  using assms by (auto simp: hex_digit_def is_space_def Let_def split: if_splits)

lemma no_underscore_no_double: "CHR ''_'' \<notin> set s \<Longrightarrow> \<not> double_underscore s"
  by (induction s rule: double_underscore.induct) auto

lemma fold_digits_value:
  assumes "\<forall>c\<in>set s. hex_digit c \<noteq> None"
  shows "fold (\<lambda>c acc. case hex_digit c of None \<Rightarrow> acc | Some v \<Rightarrow> 16 * acc + v) s a =
         foldl (\<lambda>acc c. 16 * acc + (case hex_digit c of None \<Rightarrow> 0 | Some v \<Rightarrow> v)) a s"
  using assms by (induction s arbitrary: a) auto

lemma int_base16_hex:
  assumes "is_hex_hash s"
  shows "int_base16 s = Inr (int (hex_value s))"
proof -
  from assms have ne: "s \<noteq> []" and all: "\<forall>c\<in>set s. hex_digit c \<noteq> None"
    by (simp_all add: is_hex_hash_def list_all_iff)
  from ne obtain c cs where s: "s = c # cs" by (cases s) auto
  with all have c: "hex_digit c \<noteq> None" by simp
  have s1: "dropWhile is_space s = s"
    using s hex_digit_plain(1) [OF c] by simp
  have sign: "hd s \<noteq> CHR ''+''" "hd s \<noteq> CHR ''-''"
    using s hex_digit_plain(2,3) [OF c] by simp_all
  have s3: "(case s of
               a # b # rest \<Rightarrow>
                 if a = CHR ''0'' \<and> (b = CHR ''x'' \<or> b = CHR ''X'')
                 then (case rest of u # rest' \<Rightarrow> if u = CHR ''_'' then rest' else rest | [] \<Rightarrow> rest)
                 else s
             | _ \<Rightarrow> s) = s"
  proof (cases cs)
    case Nil
    with s show ?thesis by simp
  next
    case (Cons b rest)
    with s all have "hex_digit b \<noteq> None" by simp
    from hex_digit_plain(5,6) [OF this] s Cons show ?thesis by simp
  qed
  have dig: "takeWhile digit_or_underscore s = s"
    using all by (simp add: takeWhile_eq_all_conv digit_or_underscore_def)
  have rest: "dropWhile digit_or_underscore s = []"
    using all by (simp add: dropWhile_eq_Nil_conv digit_or_underscore_def)
  have nu: "CHR ''_'' \<notin> set s"
    using all hex_digit_plain(4) by blast
  have hd_ok: "hd s \<noteq> CHR ''_''"
    using s hex_digit_plain(4) [OF c] by simp
  have last_ok: "last s \<noteq> CHR ''_''"
    using nu ne last_in_set by metis
  have dbl: "\<not> double_underscore s"
    using nu by (rule no_underscore_no_double)
  have val: "digits_value s = hex_value s"
    unfolding digits_value_def hex_value_def using all by (rule fold_digits_value)
  show ?thesis
    unfolding int_base16_def Let_def s1
    using ne sign by (simp add: s3 dig rest hd_ok last_ok dbl val)
qed

lemma hamming_distance_hex_value:
  assumes "is_hex_hash a" and "is_hex_hash b" and "length a = length b"
  shows "hamming_distance_hex a b = Inr (int (set_bit_count (hex_value a XOR hex_value b)))"
proof -
  have x: "int (hex_value a) XOR int (hex_value b) = int (hex_value a XOR hex_value b)"
    by (simp add: of_nat_xor_eq)
  show ?thesis
    unfolding hamming_distance_hex_def
    using assms(3) by (simp add: int_base16_hex [OF assms(1)] int_base16_hex [OF assms(2)] x count_ones_py_bin)
qed

lemma fold_add_distance:
  "fold (\<lambda>(b1, b2) dist. dist + f b1 b2) ps (d::int) = d + sum_list (map (\<lambda>(b1, b2). f b1 b2) ps)"
  by (induction ps arbitrary: d) auto

lemma count_ones_byte:
  "str_count (py_bin (uint (w :: 8 word))) CHR ''1'' = int (card {j. bit w j})"
proof -
  have "{j. bit (nat (uint w)) j} = {j. bit w j}"
    by (auto simp: bit_unsigned_iff)
  then have "set_bit_count (nat (uint w)) = card {j. bit w j}"
    unfolding set_bit_count_def by simp
  then show ?thesis by (simp add: count_ones_py_bin)
qed

lemma set_bit_count_bytes_sum:
  "set_bit_count_bytes ws = sum_list (map (\<lambda>w. card {j. bit w j}) ws)"
proof -
  have "{(i, j). i < length ws \<and> bit (ws ! i) j} = (SIGMA i:{0..<length ws}. {j. bit (ws ! i) j})"
    by auto
  then have "set_bit_count_bytes ws = (\<Sum>i = 0..<length ws. card {j. bit (ws ! i) j})"
    unfolding set_bit_count_bytes_def by simp
  also have "\<dots> = sum_list (map (\<lambda>w. card {j. bit w j}) ws)"
    by (simp add: sum_list_sum_nth)
  finally show ?thesis .
qed

lemma hamming_distance_bytes_value:
  assumes "length a = length b"
  shows "hamming_distance_bytes a b = Inr (int (set_bit_count_bytes (bytes_xor a b)))"
proof -
  have "sum_list (map (\<lambda>(b1, b2). str_count (py_bin (uint (b1 XOR b2))) CHR ''1'') (zip a b)) =
        int (sum_list (map (\<lambda>w. card {j. bit w j}) (bytes_xor a b)))"
    unfolding bytes_xor_def
    by (induction a b rule: list_induct2') (simp_all add: count_ones_byte)
  then show ?thesis
    unfolding hamming_distance_bytes_def using assms
    by (simp add: fold_add_distance set_bit_count_bytes_sum)
qed

lemma bytes_xor_self_zero: "bytes_xor a a = replicate (length a) 0"
  unfolding bytes_xor_def by (induction a) simp_all

lemma bytes_xor_self: "set_bit_count_bytes (bytes_xor a a) = 0"
proof -
  have "{(i, j). i < length (replicate (length a) (0 :: 8 word))
           \<and> bit (replicate (length a) (0 :: 8 word) ! i) j} = {}"
    by auto
  then show ?thesis
    unfolding bytes_xor_self_zero set_bit_count_bytes_def by (simp only: card.empty)
qed

lemma bytes_xor_commute: "bytes_xor a b = bytes_xor b a"
  unfolding bytes_xor_def
  by (induction a b rule: list_induct2') (simp_all add: xor.commute)


text \<open>
  Claim C6.  Both Hamming distance functions raise \<open>ValueError\<close> (the source's exception
  for a validation error) for two values of different lengths, whatever the values are.
  For two hex-encoded hashes of equal length the distance is the number of set bits of
  the exclusive or of their values, the distance of a hash to itself is 0, and the
  distance is symmetric.  For two byte strings of equal length the distance is the number
  of set bits of their bytewise exclusive or, the distance of a byte string to itself is
  0, and the distance is symmetric.
\<close>

theorem hamming_distance_properties:
  "(length a \<noteq> length b \<longrightarrow>
      hamming_distance_hex a b = Inl (ValueError ''Hash lengths must match''))
   \<and> (length x \<noteq> length y \<longrightarrow>
      hamming_distance_bytes x y = Inl (ValueError ''Hash lengths must match''))
   \<and> (is_hex_hash a \<and> is_hex_hash b \<and> length a = length b \<longrightarrow>
        hamming_distance_hex a b = Inr (int (set_bit_count (hex_value a XOR hex_value b)))
      \<and> hamming_distance_hex a a = Inr 0
      \<and> hamming_distance_hex a b = hamming_distance_hex b a)
   \<and> (length x = length y \<longrightarrow>
        hamming_distance_bytes x y = Inr (int (set_bit_count_bytes (bytes_xor x y)))
      \<and> hamming_distance_bytes x x = Inr 0
      \<and> hamming_distance_bytes x y = hamming_distance_bytes y x)"
proof (intro conjI impI)
  assume "length a \<noteq> length b"
  then show "hamming_distance_hex a b = Inl (ValueError ''Hash lengths must match'')"
    by (simp add: hamming_distance_hex_def)
next
  assume "length x \<noteq> length y"
  then show "hamming_distance_bytes x y = Inl (ValueError ''Hash lengths must match'')"
    by (simp add: hamming_distance_bytes_def)
next
  assume h: "is_hex_hash a \<and> is_hex_hash b \<and> length a = length b"
  then show "hamming_distance_hex a b = Inr (int (set_bit_count (hex_value a XOR hex_value b)))"
    by (simp add: hamming_distance_hex_value)
  from h have "hamming_distance_hex a a = Inr (int (set_bit_count (hex_value a XOR hex_value a)))"
    by (simp add: hamming_distance_hex_value)
  then show "hamming_distance_hex a a = Inr 0"
    by (simp add: set_bit_count_0)
  from h show "hamming_distance_hex a b = hamming_distance_hex b a"
    by (simp add: hamming_distance_hex_value xor.commute)
next
  assume l: "length x = length y"
  then show "hamming_distance_bytes x y = Inr (int (set_bit_count_bytes (bytes_xor x y)))"
    by (rule hamming_distance_bytes_value)
  show "hamming_distance_bytes x x = Inr 0"
    by (simp add: hamming_distance_bytes_value bytes_xor_self)
  from l show "hamming_distance_bytes x y = hamming_distance_bytes y x"
    by (simp add: hamming_distance_bytes_value bytes_xor_commute [of x y])
qed

theorem hamming_distance_properties_witness:
  "hamming_distance_hex ''ff00'' ''0ff0'' = Inr 8
   \<and> hamming_distance_hex ''0ff0'' ''ff00'' = Inr 8
   \<and> hamming_distance_hex ''ff00'' ''ff00'' = Inr 0
   \<and> int (set_bit_count (hex_value ''ff00'' XOR hex_value ''0ff0'')) = 8
   \<and> hamming_distance_hex ''ff00'' ''0ff'' = Inl (ValueError ''Hash lengths must match'')
   \<and> hamming_distance_bytes [255, 0] [15, 240] = Inr 8
   \<and> hamming_distance_bytes [15, 240] [255, 0] = Inr 8
   \<and> hamming_distance_bytes [255, 0] [255, 0] = Inr 0
   \<and> int (set_bit_count_bytes (bytes_xor [255, 0] [15, 240])) = 8
   \<and> hamming_distance_bytes [255, 0] [15] = Inl (ValueError ''Hash lengths must match'')"
proof -
  have hex: "is_hex_hash ''ff00''" "is_hex_hash ''0ff0''"
    by (simp_all add: is_hex_hash_def hex_digit_def)
  have h: "hex_value ''ff00'' = 65280" "hex_value ''0ff0'' = 4080"
    by (simp_all add: hex_value_def hex_digit_def)
  have x: "(65280::int) XOR 4080 = 61680"
    by simp
  have b: "bin_digits 61680 = ''1111000011110000''" "bin_digits 240 = ''11110000''"
    by (simp_all add: bin_digits.simps)
  have v1: "hamming_distance_hex ''ff00'' ''0ff0'' = Inr 8"
    unfolding hamming_distance_hex_def int_base16_hex [OF hex(1)] int_base16_hex [OF hex(2)] h
    by (simp add: x py_bin_def b str_count_def)
  have w: "(255 :: 8 word) XOR 15 = 240" "(0 :: 8 word) XOR 240 = 240"
    by simp_all
  have v2: "hamming_distance_bytes [255, 0] [15, 240] = Inr 8"
    unfolding hamming_distance_bytes_def
    by (simp add: w py_bin_def b str_count_def)
  note hex_facts = hamming_distance_properties [of "''ff00''" "''0ff0''" "[255, 0]" "[15, 240]"]
  note len_facts = hamming_distance_properties [of "''ff00''" "''0ff''" "[255, 0]" "[15]"]
  have l1: "length ''ff00'' = length ''0ff0''"
    and l2: "length [255 :: 8 word, 0] = length [15 :: 8 word, 240]"
    and l3: "length ''ff00'' \<noteq> length ''0ff''"
    and l4: "length [255 :: 8 word, 0] \<noteq> length [15 :: 8 word]"
    by simp_all
  from hex_facts hex l1 have a:
    "hamming_distance_hex ''ff00'' ''0ff0'' =
       Inr (int (set_bit_count (hex_value ''ff00'' XOR hex_value ''0ff0'')))
     \<and> hamming_distance_hex ''ff00'' ''ff00'' = Inr 0
     \<and> hamming_distance_hex ''ff00'' ''0ff0'' = hamming_distance_hex ''0ff0'' ''ff00''"
    by blast
  from hex_facts l2 have c:
    "hamming_distance_bytes [255, 0] [15, 240] =
       Inr (int (set_bit_count_bytes (bytes_xor [255, 0] [15, 240])))
     \<and> hamming_distance_bytes [255, 0] [255, 0] = Inr 0
     \<and> hamming_distance_bytes [255, 0] [15, 240] = hamming_distance_bytes [15, 240] [255, 0]"
    by blast
  from len_facts l3 l4 have d:
    "hamming_distance_hex ''ff00'' ''0ff'' = Inl (ValueError ''Hash lengths must match'')
     \<and> hamming_distance_bytes [255, 0] [15] = Inl (ValueError ''Hash lengths must match'')"
    by blast
  from a v1 have a1: "int (set_bit_count (hex_value ''ff00'' XOR hex_value ''0ff0'')) = 8"
    and a3: "hamming_distance_hex ''0ff0'' ''ff00'' = Inr 8"
    by simp_all
  from c v2 have c1: "int (set_bit_count_bytes (bytes_xor [255, 0] [15, 240])) = 8"
    and c3: "hamming_distance_bytes [15, 240] [255, 0] = Inr 8"
    by simp_all
  from v1 a3 a a1 d v2 c3 c c1 show ?thesis
    by blast
qed

end
